theory Spec2Isabelle
  imports Main
begin

section \<open>Strings, maps and formatting as the Go code uses them\<close>

text \<open>
  Indexing a Go \<^verbatim>\<open>map[string]string\<close> with a key it does not hold gives the empty
  string. The tables of the source are map literals; they are kept as association lists and
  read through \<open>index_map\<close>.
\<close>

definition index_map :: "(string \<times> string) list \<Rightarrow> string \<Rightarrow> string" where
  "index_map m k = (case map_of m k of None \<Rightarrow> [] | Some v \<Rightarrow> v)"

text \<open>
  \<^verbatim>\<open>fmt.Sprintf\<close> restricted to the verb \<^verbatim>\<open>%s\<close>, the only verb in the URL templates: each
  \<^verbatim>\<open>%s\<close> is replaced by the next argument, and by \<^verbatim>\<open>%!s(MISSING)\<close> when the arguments have
  run out. Every other character is copied.
\<close>

fun Sprintf :: "string \<Rightarrow> string list \<Rightarrow> string" where
  "Sprintf [] as = []"
| "Sprintf [c] as = [c]"
| "Sprintf (c # d # f) as =
     (if c = CHR ''%'' \<and> d = CHR ''s''
      then (case as of
              [] \<Rightarrow> ''%!s(MISSING)'' @ Sprintf f []
            | a # as' \<Rightarrow> a @ Sprintf f as')
      else c # Sprintf (d # f) as)"

section \<open>Semantic versions\<close>

text \<open>
  Modelled from the spec: the semantic-version library (\<^verbatim>\<open>github.com/blang/semver/v4\<close>) is an
  external dependency and not among the sources. The spec asks for a tolerant parse
  (``accepts a leading v, missing patch component''), failing on an unparseable string, and
  for comparisons of the parsed value. The definitions below follow the library's
  \<^verbatim>\<open>ParseTolerant\<close>, \<^verbatim>\<open>Parse\<close>, \<^verbatim>\<open>NewPRVersion\<close> and \<^verbatim>\<open>Compare\<close> step by step. The source discards
  the text of a parse error, so a failed parse is \<open>None\<close>. Strings are byte strings and
  \<^verbatim>\<open>TrimSpace\<close> is modelled for the ASCII white space.
\<close>

datatype PRVersion = PRNum nat | PRStr string

record Version =
  Major :: nat
  Minor :: nat
  Patch :: nat
  Pre :: "PRVersion list"
  Build :: "string list"

definition numbers :: string where
  "numbers = ''0123456789''"

definition alphas :: string where
  "alphas = ''abcdefghijklmnopqrstuvwxyzABCDEFGHIJKLMNOPQRSTUVWXYZ-''"

definition alphanum :: string where
  "alphanum = alphas @ numbers"

definition containsOnly :: "string \<Rightarrow> string \<Rightarrow> bool" where
  "containsOnly s cs = list_all (\<lambda>c. c \<in> set cs) s"

definition hasLeadingZeroes :: "string \<Rightarrow> bool" where
  "hasLeadingZeroes s = (case s of c # _ # _ \<Rightarrow> c = CHR ''0'' | _ \<Rightarrow> False)"

definition digit :: "char \<Rightarrow> nat" where
  "digit c = of_char c - 48"

text \<open>
  \<^verbatim>\<open>strconv.ParseUint(s, 10, 64)\<close>: an error on the empty string, on a character that is not
  a decimal digit, and on a value that does not fit 64 bits.
\<close>

definition ParseUint :: "string \<Rightarrow> nat option" where
  "ParseUint s =
     (if s = [] \<or> \<not> containsOnly s numbers then None
      else (let n = foldl (\<lambda>a c. 10 * a + digit c) 0 s
            in if n < 2 ^ 64 then Some n else None))"

text \<open>\<^verbatim>\<open>strings.Cut\<close> at the first separator, \<^verbatim>\<open>strings.SplitN\<close> and \<^verbatim>\<open>strings.Split\<close>.\<close>

fun cut :: "char \<Rightarrow> string \<Rightarrow> (string \<times> string) option" where
  "cut sep [] = None"
| "cut sep (c # s) =
     (if c = sep then Some ([], s)
      else (case cut sep s of None \<Rightarrow> None | Some (a, b) \<Rightarrow> Some (c # a, b)))"

fun SplitN :: "char \<Rightarrow> nat \<Rightarrow> string \<Rightarrow> string list" where
  "SplitN sep 0 s = []"
| "SplitN sep (Suc n) s =
     (if n = 0 then [s]
      else (case cut sep s of None \<Rightarrow> [s] | Some (a, b) \<Rightarrow> a # SplitN sep n b))"

fun Split :: "char \<Rightarrow> string \<Rightarrow> string list" where
  "Split sep [] = [[]]"
| "Split sep (c # s) =
     (if c = sep then [] # Split sep s
      else (case Split sep s of [] \<Rightarrow> [[c]] | p # ps \<Rightarrow> (c # p) # ps))"

definition Join :: "string list \<Rightarrow> char \<Rightarrow> string" where
  "Join parts sep = (case parts of [] \<Rightarrow> [] | p # ps \<Rightarrow> p @ concat (map (\<lambda>q. sep # q) ps))"

definition isSpace :: "char \<Rightarrow> bool" where
  "isSpace c = (let n = (of_char c :: nat) in n = 32 \<or> (9 \<le> n \<and> n \<le> 13))"

definition TrimSpace :: "string \<Rightarrow> string" where
  "TrimSpace s = rev (dropWhile isSpace (rev (dropWhile isSpace s)))"

definition TrimPrefix :: "string \<Rightarrow> char \<Rightarrow> string" where
  "TrimPrefix s p = (case s of [] \<Rightarrow> [] | c # r \<Rightarrow> if c = p then r else s)"

definition NewPRVersion :: "string \<Rightarrow> PRVersion option" where
  "NewPRVersion s =
     (if s = [] then None
      else if containsOnly s numbers then
        (if hasLeadingZeroes s then None
         else (case ParseUint s of None \<Rightarrow> None | Some n \<Rightarrow> Some (PRNum n)))
      else if containsOnly s alphanum then Some (PRStr s)
      else None)"

text \<open>The loops of \<^verbatim>\<open>Parse\<close> over the prerelease and the build fields stop at the first error.\<close>

fun parsePre :: "string list \<Rightarrow> PRVersion list option" where
  "parsePre [] = Some []"
| "parsePre (p # ps) =
     (case NewPRVersion p of
        None \<Rightarrow> None
      | Some v \<Rightarrow> (case parsePre ps of None \<Rightarrow> None | Some vs \<Rightarrow> Some (v # vs)))"

fun parseBuild :: "string list \<Rightarrow> string list option" where
  "parseBuild [] = Some []"
| "parseBuild (b # bs) =
     (if b = [] \<or> \<not> containsOnly b alphanum then None
      else (case parseBuild bs of None \<Rightarrow> None | Some vs \<Rightarrow> Some (b # vs)))"

definition parseNumber :: "string \<Rightarrow> nat option" where
  "parseNumber p =
     (if \<not> containsOnly p numbers \<or> hasLeadingZeroes p then None else ParseUint p)"

definition Parse :: "string \<Rightarrow> Version option" where
  "Parse s =
     (if s = [] then None
      else (case SplitN (CHR ''.'') 3 s of
        [p0, p1, p2] \<Rightarrow>
          (case parseNumber p0 of None \<Rightarrow> None | Some major \<Rightarrow>
          (case parseNumber p1 of None \<Rightarrow> None | Some minor \<Rightarrow>
            (let (patchStr1, build) =
                   (case cut (CHR ''+'') p2 of
                      None \<Rightarrow> (p2, [])
                    | Some (a, b) \<Rightarrow> (a, Split (CHR ''.'') b));
                 (patchStr, prerelease) =
                   (case cut (CHR ''-'') patchStr1 of
                      None \<Rightarrow> (patchStr1, [])
                    | Some (a, b) \<Rightarrow> (a, Split (CHR ''.'') b))
             in (case parseNumber patchStr of None \<Rightarrow> None | Some patch \<Rightarrow>
                (case parsePre prerelease of None \<Rightarrow> None | Some pre \<Rightarrow>
                (case parseBuild build of None \<Rightarrow> None | Some bld \<Rightarrow>
                   Some \<lparr>Major = major, Minor = minor, Patch = patch,
                         Pre = pre, Build = bld\<rparr>))))))
      | _ \<Rightarrow> None))"

text \<open>
  \<^verbatim>\<open>ParseTolerant\<close>: trim spaces, drop one leading \<^verbatim>\<open>v\<close>, split into at most three parts,
  remove leading zeroes of every part longer than one character, fill a short version up
  with \<^verbatim>\<open>0\<close> (refused when its last part holds \<^verbatim>\<open>+\<close> or \<^verbatim>\<open>-\<close>), and hand over to \<^verbatim>\<open>Parse\<close>.
\<close>

definition trimZeroes :: "string \<Rightarrow> string" where
  "trimZeroes p =
     (case p of
        _ # _ # _ \<Rightarrow>
          (let q = dropWhile (\<lambda>c. c = CHR ''0'') p
           in if q = [] \<or> hd q \<notin> set numbers then CHR ''0'' # q else q)
      | _ \<Rightarrow> p)"

definition ParseTolerant :: "string \<Rightarrow> Version option" where
  "ParseTolerant s0 =
     (let s = TrimPrefix (TrimSpace s0) (CHR ''v'');
          parts = map trimZeroes (SplitN (CHR ''.'') 3 s)
      in if length parts < 3 \<and> list_ex (\<lambda>c. c = CHR ''+'' \<or> c = CHR ''-'') (last parts)
         then None
         else Parse (Join (parts @ replicate (3 - length parts) ''0'') (CHR ''.'')))"

text \<open>\<^verbatim>\<open>MustParse\<close> panics on an error; the source applies it to two literals that parse.\<close>

definition MustParse :: "string \<Rightarrow> Version" where
  "MustParse s = the (Parse s)"

definition comparePR :: "PRVersion \<Rightarrow> PRVersion \<Rightarrow> int" where
  "comparePR v w =
     (case (v, w) of
        (PRNum _, PRStr _) \<Rightarrow> - 1
      | (PRStr _, PRNum _) \<Rightarrow> 1
      | (PRNum a, PRNum b) \<Rightarrow> (if a = b then 0 else if a > b then 1 else - 1)
      | (PRStr a, PRStr b) \<Rightarrow>
          (if a = b then 0
           else if lexordp (\<lambda>x y. (of_char x :: nat) < of_char y) b a then 1 else - 1))"

fun comparePre :: "PRVersion list \<Rightarrow> PRVersion list \<Rightarrow> int" where
  "comparePre [] [] = 0"
| "comparePre [] (y # ys) = - 1"
| "comparePre (x # xs) [] = 1"
| "comparePre (x # xs) (y # ys) =
     (let comp = comparePR x y in if comp = 0 then comparePre xs ys else comp)"

definition Compare :: "Version \<Rightarrow> Version \<Rightarrow> int" where
  "Compare v w =
     (if Major v \<noteq> Major w then (if Major v > Major w then 1 else - 1)
      else if Minor v \<noteq> Minor w then (if Minor v > Minor w then 1 else - 1)
      else if Patch v \<noteq> Patch w then (if Patch v > Patch w then 1 else - 1)
      else if Pre v = [] \<and> Pre w = [] then 0
      else if Pre v = [] \<and> Pre w \<noteq> [] then 1
      else if Pre v \<noteq> [] \<and> Pre w = [] then - 1
      else comparePre (Pre v) (Pre w))"

definition LT :: "Version \<Rightarrow> Version \<Rightarrow> bool" where
  "LT v w = (Compare v w = - 1)"

definition GTE :: "Version \<Rightarrow> Version \<Rightarrow> bool" where
  "GTE v w = (Compare v w \<ge> 0)"

section \<open>The version resolver (upup/pkg/fi/cloudup/containerd.go)\<close>

subsection \<open>Data\<close>

text \<open>
  Modelled from the spec: package \<^verbatim>\<open>architectures\<close> is not among the sources. An architecture
  is a string (the source formats it with \<^verbatim>\<open>%s\<close> and has a \<^verbatim>\<open>default\<close> branch for a value that
  is neither constant); the spec names the two values \<^verbatim>\<open>amd64\<close> and \<^verbatim>\<open>arm64\<close>.
\<close>

type_synonym Architecture = string

definition ArchitectureAmd64 :: Architecture where
  "ArchitectureAmd64 = ''amd64''"

definition ArchitectureArm64 :: Architecture where
  "ArchitectureArm64 = ''arm64''"

text \<open>
  The errors of the source are built with \<^verbatim>\<open>fmt.Errorf\<close>; one constructor stands for each
  message, with the values the message is formatted from:
  \<^item> \<open>NoContainerdConfig\<close>: unable to find containerd config;
  \<^item> \<open>NoContainerdVersion\<close>: unable to find containerd version;
  \<^item> \<open>UnknownUrlAndHash\<close>: unknown url and hash for containerd version: arch - version;
  \<^item> \<open>UnparseableVersion\<close>: unable to parse version string: version;
  \<^item> \<open>UnsupportedLegacyVersion\<close>: unsupported legacy containerd version: version;
  \<^item> \<open>UnknownArch\<close>: unknown arch: arch;
  \<^item> \<open>UnknownUrl\<close>: unknown url for containerd version: arch - version;
  \<^item> \<open>UnknownHash\<close>: unknown hash for containerd version: arch - version;
  \<^item> \<open>ExternalError\<close>: an error returned by a function that is not among the sources.
\<close>

datatype error =
    NoContainerdConfig
  | NoContainerdVersion
  | UnknownUrlAndHash Architecture string
  | UnparseableVersion string
  | UnsupportedLegacyVersion string
  | UnknownArch Architecture
  | UnknownUrl Architecture string
  | UnknownHash Architecture string
  | ExternalError string

text \<open>
  The cluster specification, with the fields \<^verbatim>\<open>findContainerdAsset\<close> reads. A Go pointer is an
  option: \<open>None\<close> is \<^verbatim>\<open>nil\<close>.
\<close>

record PackagesConfig =
  UrlAmd64 :: "string option"
  HashAmd64 :: "string option"
  UrlArm64 :: "string option"
  HashArm64 :: "string option"

record ContainerdConfig =
  Packages :: "PackagesConfig option"
  Version :: "string option"

record ClusterSpec =
  Containerd :: "ContainerdConfig option"

record Cluster =
  Spec :: ClusterSpec

text \<open>
  Modelled from the spec: \<^verbatim>\<open>fi.StringValue\<close> (package \<^verbatim>\<open>fi\<close> is not among the sources) reads
  a string pointer; the source compares its result on the version with the empty string to
  find a missing version, so \<^verbatim>\<open>nil\<close> reads as the empty string.
\<close>

definition StringValue :: "string option \<Rightarrow> string" where
  "StringValue v = (case v of None \<Rightarrow> [] | Some s \<Rightarrow> s)"

text \<open>
  The docker side of the package (\<^verbatim>\<open>docker.go\<close>) is not among the sources. What the
  containerd functions use of it is a parameter of the model: the two resolution functions of
  the bundler, the arm64 URL template and the arm64 hash table.
\<close>

record docker =
  findDockerVersionUrl :: "Architecture \<Rightarrow> string \<Rightarrow> error + string"
  findDockerVersionHash :: "Architecture \<Rightarrow> string \<Rightarrow> error + string"
  dockerVersionUrlArm64 :: string
  findAllDockerHashesArm64 :: "(string \<times> string) list"

subsection \<open>Constants and tables\<close>

definition containerdVersionUrlAmd64 :: string where
  "containerdVersionUrlAmd64 =
     ''https://github.com/containerd/containerd/releases/download/v%s/cri-containerd-cni-%s-linux-amd64.tar.gz''"

definition containerdLegacyUrlAmd64 :: string where
  "containerdLegacyUrlAmd64 =
     ''https://storage.googleapis.com/cri-containerd-release/cri-containerd-%s.linux-amd64.tar.gz''"

definition containerdFallbackVersion :: string where
  "containerdFallbackVersion = ''1.4.6''"

definition findAllContainerdHashesAmd64 :: "(string \<times> string) list" where
  "findAllContainerdHashesAmd64 =
    [(''1.3.4'', ''4616971c3ad21c24f2f2320fa1c085577a91032a068dd56a41c7c4b71a458087''),
     (''1.3.9'', ''96663699e0f888fbf232ae6629a367aa7421f6b95044e7ee5d4d4e02841fac75''),
     (''1.3.10'', ''69e23e49cdf1232d475a77bf7ecd7145ff4a80295154e190125c4d8a20e241da''),
     (''1.4.0'', ''b379f29417efd583f77e095173d4d0bd6bb001f0081b2a63d152ee7aef653ce1''),
     (''1.4.1'', ''757efb93a4f3161efc447a943317503d8a7ded5cb4cc0cba3f3318d7ce1542ed''),
     (''1.4.2'', ''9d0fd5f4d2bc58b345728432b7daac75fc99c1da91afa4f41e6103f618e74012''),
     (''1.4.3'', ''2697a342e3477c211ab48313e259fd7e32ad1f5ded19320e6a559f50a82bff3d''),
     (''1.4.4'', ''96641849cb78a0a119223a427dfdc1ade88412ef791a14193212c8c8e29d447b''),
     (''1.4.5'', ''f8155278fd256526ca9804219e1ee46f5db11c6ddf455086b04c0887c868822a''),
     (''1.4.6'', ''6ae4763598c9583f8b50605f19d6c7e9ef93c216706465e73dfc84ee6b63a238''),
     (''1.4.7'', ''daa14638344fe0772f645e190e4d8eb9549b52743364cb8000521490f9e410b8''),
     (''1.4.8'', ''96e815c9ab664a02dd5be35e31d15890ea6bef04dfaa39f99f14676c3d6561e8''),
     (''1.4.9'', ''9911479f86012d6eab7e0f532da8f807a8b0f555ee09ef89367d8c31243073bb''),
     (''1.5.0'', ''aee7b553ab88842fdafe43955757abe746b8e9995b2be55c603f0a236186ff9b''),
     (''1.5.1'', ''2fd97916b24396c13849cfcd89805170e1ef0265a2f7fce8e74ae044a6a6a169''),
     (''1.5.2'', ''e7adbb6c6f6e67639460579a8aa991e9ce4de2062ed36d3261e6e4865574d947''),
     (''1.5.3'', ''32a9bf1b7ab2adbd9d2a16b17bf1aa6e61592938655adfb5114c40d527aa9be7''),
     (''1.5.4'', ''591e4e087ea2f5007e6c64deb382df58d419b7b6922eab45a1923d843d57615f''),
     (''1.5.5'', ''45f02cfc65db47cf088c95555906e1dcba7baf5a3fbad3d947dd6b9af476a144'')]"

definition findAllContainerdDockerMappings :: "(string \<times> string) list" where
  "findAllContainerdDockerMappings =
    [(''1.3.7'', ''19.03.13''),
     (''1.3.9'', ''19.03.14''),
     (''1.4.3'', ''20.10.0''),
     (''1.4.4'', ''20.10.6''),
     (''1.4.6'', ''20.10.7'')]"

subsection \<open>Functions\<close>

text \<open>
  \<^verbatim>\<open>findContainerdVersionUrl\<close>: the parse, the legacy floor, then the \<^verbatim>\<open>switch\<close> on the
  architecture (\<open>None\<close> is its \<^verbatim>\<open>default\<close> branch) and the test for an empty URL.
\<close>

definition findContainerdVersionUrl :: "docker \<Rightarrow> Architecture \<Rightarrow> string \<Rightarrow> error + string" where
  "findContainerdVersionUrl D arch version =
     (case ParseTolerant version of
        None \<Rightarrow> Inl (UnparseableVersion version)
      | Some sv \<Rightarrow>
          if LT sv (MustParse ''1.3.4'') then Inl (UnsupportedLegacyVersion version)
          else
            (case (if arch = ArchitectureAmd64 then
                     Some (if GTE sv (MustParse ''1.3.8'')
                           then Sprintf containerdVersionUrlAmd64 [version, version]
                           else Sprintf containerdLegacyUrlAmd64 [version])
                   else if arch = ArchitectureArm64 then
                     Some (if index_map findAllContainerdHashesAmd64 version \<noteq> []
                           then (if index_map findAllContainerdDockerMappings version \<noteq> []
                                 then Sprintf (dockerVersionUrlArm64 D)
                                        [index_map findAllContainerdDockerMappings version]
                                 else Sprintf (dockerVersionUrlArm64 D)
                                        [index_map findAllContainerdDockerMappings
                                           containerdFallbackVersion])
                           else [])
                   else None) of
               None \<Rightarrow> Inl (UnknownArch arch)
             | Some u \<Rightarrow> if u = [] then Inl (UnknownUrl arch version) else Inr u))"

definition findContainerdVersionHash :: "docker \<Rightarrow> Architecture \<Rightarrow> string \<Rightarrow> error + string" where
  "findContainerdVersionHash D arch version =
     (case ParseTolerant version of
        None \<Rightarrow> Inl (UnparseableVersion version)
      | Some sv \<Rightarrow>
          if LT sv (MustParse ''1.3.4'') then Inl (UnsupportedLegacyVersion version)
          else
            (case (if arch = ArchitectureAmd64 then
                     Some (index_map findAllContainerdHashesAmd64 version)
                   else if arch = ArchitectureArm64 then
                     Some (if index_map findAllContainerdHashesAmd64 version \<noteq> []
                           then (if index_map findAllContainerdDockerMappings version \<noteq> []
                                 then index_map (findAllDockerHashesArm64 D)
                                        (index_map findAllContainerdDockerMappings version)
                                 else index_map (findAllDockerHashesArm64 D)
                                        (index_map findAllContainerdDockerMappings
                                           containerdFallbackVersion))
                           else [])
                   else None) of
               None \<Rightarrow> Inl (UnknownArch arch)
             | Some h \<Rightarrow> if h = [] then Inl (UnknownHash arch version) else Inr h))"

text \<open>
  \<^verbatim>\<open>findContainerdVersionUrlHash\<close>: the lookup in the amd64 hash table comes first; only a
  version it holds reaches the two functions above, any other version goes to the docker
  mapping (the \<^verbatim>\<open>println\<close> of the docker version is not modelled).
\<close>

definition findContainerdVersionUrlHash ::
    "docker \<Rightarrow> Architecture \<Rightarrow> string \<Rightarrow> error + (string \<times> string)" where
  "findContainerdVersionUrlHash D arch version =
     (if index_map findAllContainerdHashesAmd64 version \<noteq> [] then
        (case findContainerdVersionUrl D arch version of
           Inl err \<Rightarrow> Inl err
         | Inr containerdAssetUrl \<Rightarrow>
             (case findContainerdVersionHash D arch version of
                Inl err \<Rightarrow> Inl err
              | Inr containerdAssetHash \<Rightarrow> Inr (containerdAssetUrl, containerdAssetHash)))
      else
        (let dv = index_map findAllContainerdDockerMappings version
         in if dv \<noteq> [] then
              (case findDockerVersionUrl D arch dv of
                 Inl err \<Rightarrow> Inl err
               | Inr containerdAssetUrl \<Rightarrow>
                   (case findDockerVersionHash D arch dv of
                      Inl err \<Rightarrow> Inl err
                    | Inr containerdAssetHash \<Rightarrow> Inr (containerdAssetUrl, containerdAssetHash)))
            else Inl (UnknownUrlAndHash arch version)))"

text \<open>
  \<^verbatim>\<open>findContainerdAsset\<close>. The function \<^verbatim>\<open>findAssetsUrlHash\<close>, which builds the returned
  descriptor from an asset builder, a URL and a hash, is not among the sources: it is the
  parameter \<open>findAssetsUrlHash\<close>, and the asset builder and the descriptor are of any type.
\<close>

definition findContainerdAsset ::
    "('ab \<Rightarrow> string \<Rightarrow> string \<Rightarrow> error + 'd) \<Rightarrow> docker \<Rightarrow> Cluster \<Rightarrow> 'ab \<Rightarrow> Architecture
       \<Rightarrow> error + 'd" where
  "findContainerdAsset findAssetsUrlHash D c assetBuilder arch =
     (case Containerd (Spec c) of
        None \<Rightarrow> Inl NoContainerdConfig
      | Some containerd \<Rightarrow>
          (let byVersion =
                 (let version = StringValue (Version containerd)
                  in if version = [] then Inl NoContainerdVersion
                     else (case findContainerdVersionUrlHash D arch version of
                             Inl err \<Rightarrow> Inl err
                           | Inr (assetUrl, assetHash) \<Rightarrow>
                               findAssetsUrlHash assetBuilder assetUrl assetHash))
           in (case Packages containerd of
                 None \<Rightarrow> byVersion
               | Some pkgs \<Rightarrow>
                   if arch = ArchitectureAmd64 \<and> UrlAmd64 pkgs \<noteq> None \<and> HashAmd64 pkgs \<noteq> None
                   then findAssetsUrlHash assetBuilder
                          (StringValue (UrlAmd64 pkgs)) (StringValue (HashAmd64 pkgs))
                   else if arch = ArchitectureArm64 \<and> UrlArm64 pkgs \<noteq> None
                           \<and> HashArm64 pkgs \<noteq> None
                   then findAssetsUrlHash assetBuilder
                          (StringValue (UrlArm64 pkgs)) (StringValue (HashArm64 pkgs))
                   else byVersion)))"

section \<open>The verified fetcher (\<^verbatim>\<open>download-or-bust\<close> of the node bootstrap script)\<close>

text \<open>
  The script runs on one machine. What it touches is the target file, which is absent
  (\<open>None\<close>) or holds bytes; the model also records, in order, every download command it runs
  with the URL given to it, and the seconds it has slept.
\<close>

record machine =
  target :: "string option"
  attempts :: "(string \<times> string) list"
  slept :: nat

text \<open>
  A download command is an external program. It fails (a nonzero exit status), leaving the
  target in a state of its own choosing, or succeeds, leaving the bytes it fetched. The
  network is a parameter: the outcome of the command run as the \<open>n\<close>-th attempt (counted from
  0) with a given command line and URL.
\<close>

datatype outcome = Failed "string option" | Succeeded string

type_synonym network = "nat \<Rightarrow> string \<Rightarrow> string \<Rightarrow> outcome"

text \<open>The array \<^verbatim>\<open>commands\<close> for the target named \<open>file\<close>.\<close>

definition commands :: "string \<Rightarrow> string list" where
  "commands file =
     [''curl -f --compressed -Lo '' @ file @ '' --connect-timeout 20 --retry 6 --retry-delay 10'',
      ''wget --compression=auto -O '' @ file @ '' --connect-timeout=20 --tries=6 --wait=10'',
      ''curl -f -Lo '' @ file @ '' --connect-timeout 20 --retry 6 --retry-delay 10'',
      ''wget -O '' @ file @ '' --connect-timeout=20 --tries=6 --wait=10'']"

text \<open>
  \<^verbatim>\<open>validate-hash\<close>: the digest program is the parameter \<open>sha256sum\<close>. When the file is absent
  the pipeline prints nothing and \<^verbatim>\<open>actual\<close> is the empty string. The result is the exit
  status: \<open>True\<close> for 0.
\<close>

definition validate_hash :: "(string \<Rightarrow> string) \<Rightarrow> string option \<Rightarrow> string \<Rightarrow> bool" where
  "validate_hash sha256sum content expected =
     (let actual = (case content of None \<Rightarrow> [] | Some bytes \<Rightarrow> sha256sum bytes)
      in \<not> actual \<noteq> expected)"

text \<open>
  The inner loop over the commands for one URL. The first component of the result tells
  whether the function has returned (\<^verbatim>\<open>return\<close> in the loop body). A command that fails
  leads to \<^verbatim>\<open>continue\<close>; after a command that succeeds the file is validated, and removed
  when the validation fails. The messages the script prints are not modelled.
\<close>

fun try_commands ::
    "(string \<Rightarrow> string) \<Rightarrow> network \<Rightarrow> string \<Rightarrow> string \<Rightarrow> string list \<Rightarrow> machine
       \<Rightarrow> bool \<times> machine" where
  "try_commands sha256sum net hash url [] m = (False, m)"
| "try_commands sha256sum net hash url (cmd # cmds) m =
     (case net (length (attempts m)) cmd url of
        Failed left \<Rightarrow>
          try_commands sha256sum net hash url cmds
            (m\<lparr>target := left, attempts := attempts m @ [(cmd, url)]\<rparr>)
      | Succeeded bytes \<Rightarrow>
          (let m' = m\<lparr>target := Some bytes, attempts := attempts m @ [(cmd, url)]\<rparr>
           in if \<not> validate_hash sha256sum (target m') hash
              then try_commands sha256sum net hash url cmds (m'\<lparr>target := None\<rparr>)
              else (True, m')))"

text \<open>The loop over the URLs: one full pass.\<close>

fun try_urls ::
    "(string \<Rightarrow> string) \<Rightarrow> network \<Rightarrow> string \<Rightarrow> string \<Rightarrow> string list \<Rightarrow> machine
       \<Rightarrow> bool \<times> machine" where
  "try_urls sha256sum net file hash [] m = (False, m)"
| "try_urls sha256sum net file hash (url # urls) m =
     (case try_commands sha256sum net hash url (commands file) m of
        (True, m') \<Rightarrow> (True, m')
      | (False, m') \<Rightarrow> try_urls sha256sum net file hash urls m')"

text \<open>
  \<^verbatim>\<open>while true\<close>: a pass, and after a pass that did not return, \<^verbatim>\<open>sleep 60\<close> and again. The
  loop has no other exit, so the function is partial: \<open>None\<close> is a run that never returns.
\<close>

partial_function (option) download_loop ::
    "(string \<Rightarrow> string) \<Rightarrow> network \<Rightarrow> string \<Rightarrow> string \<Rightarrow> string list \<Rightarrow> machine
       \<Rightarrow> machine option" where
  "download_loop sha256sum net file hash urls m =
     (if fst (try_urls sha256sum net file hash urls m)
      then Some (snd (try_urls sha256sum net file hash urls m))
      else download_loop sha256sum net file hash urls
             ((snd (try_urls sha256sum net file hash urls m))
                \<lparr>slept := slept (snd (try_urls sha256sum net file hash urls m)) + 60\<rparr>))"

declare download_loop.simps [code]

text \<open>
  \<^verbatim>\<open>download-or-bust\<close>: the check of a file that is already there, then the loop. The URLs are
  the array the script gets from its third argument by \<^verbatim>\<open>split-commas\<close>.

  The result carries the exit status of the function, which the caller sees (the script runs
  under \<^verbatim>\<open>set -o errexit\<close> and calls the function as a plain command). Both \<^verbatim>\<open>return\<close>s are
  bare, so the status is that of the last command run before them. In the loop this is the
  \<^verbatim>\<open>echo\<close> of the success message: status 0. In the check of an existing file it is the
  condition \<^verbatim>\<open>! validate-hash\<close> of the \<^verbatim>\<open>if\<close>, which has just been false: status 1.
\<close>

definition download_or_bust ::
    "(string \<Rightarrow> string) \<Rightarrow> network \<Rightarrow> string \<Rightarrow> string \<Rightarrow> string list \<Rightarrow> machine
       \<Rightarrow> (nat \<times> machine) option" where
  "download_or_bust sha256sum net file hash urls m =
     (if target m \<noteq> None then
        (if \<not> validate_hash sha256sum (target m) hash
         then map_option (\<lambda>m'. (0, m'))
                (download_loop sha256sum net file hash urls (m\<lparr>target := None\<rparr>))
         else Some (1, m))
      else map_option (\<lambda>m'. (0, m')) (download_loop sha256sum net file hash urls m))"

text \<open>
  Two notions to state properties with: a command's outcome \<^emph>\<open>verifies\<close> when the command
  succeeded and \<^verbatim>\<open>validate-hash\<close> accepts the bytes it left; \<open>pass_attempts\<close> is the list of
  the (command, URL) pairs of a pass over the given URLs, in the order of the two loops.
\<close>

definition verifies :: "(string \<Rightarrow> string) \<Rightarrow> string \<Rightarrow> outcome \<Rightarrow> bool" where
  "verifies sha256sum hash out =
     (case out of Failed left \<Rightarrow> False | Succeeded bytes \<Rightarrow> validate_hash sha256sum (Some bytes) hash)"

definition pass_attempts :: "string \<Rightarrow> string list \<Rightarrow> (string \<times> string) list" where
  "pass_attempts file urls = concat (map (\<lambda>url. map (\<lambda>cmd. (cmd, url)) (commands file)) urls)"

section \<open>Sample inputs\<close>

text \<open>
  Modelled from the spec: \<^verbatim>\<open>findAssetsUrlHash\<close> is not among the sources. For the spec the
  resolver returns ``\<^verbatim>\<open>{url, sha256}\<close> directly as a single-URL Asset Descriptor''; this
  instance of the parameter does so, for an asset builder that holds nothing.
\<close>

record AssetDescriptor =
  asset_sha256 :: string
  asset_urls :: "string list"

definition verbatimDescriptor :: "unit \<Rightarrow> string \<Rightarrow> string \<Rightarrow> error + AssetDescriptor" where
  "verbatimDescriptor assetBuilder assetUrl assetHash =
     Inr \<lparr>asset_sha256 = assetHash, asset_urls = [assetUrl]\<rparr>"

text \<open>
  A docker side to run the resolver on. The arm64 URL template and the hash of docker 20.10.7
  are read off the arm64 docker asset of the integration test data among the sources (the
  asset list of \<^verbatim>\<open>update_cluster/shared_subnet\<close>); the hash of docker 20.10.0 is a stand-in,
  and the two bundler functions answer for arm64 only.
\<close>

definition sampleDocker :: docker where
  "sampleDocker =
     \<lparr>findDockerVersionUrl = (\<lambda>arch dv.
        if arch = ArchitectureArm64
        then Inr (Sprintf ''https://download.docker.com/linux/static/stable/aarch64/docker-%s.tgz'' [dv])
        else Inl (ExternalError ''unknown url for docker version'')),
      findDockerVersionHash = (\<lambda>arch dv.
        if arch = ArchitectureArm64 \<and> dv = ''20.10.7''
        then Inr ''be8c9a5a06ebec8fb1d36e867cd00fb5777746a9812a0cae2966778ff899c525''
        else Inl (ExternalError ''unknown hash for docker version'')),
      dockerVersionUrlArm64 =
        ''https://download.docker.com/linux/static/stable/aarch64/docker-%s.tgz'',
      findAllDockerHashesArm64 =
        [(''20.10.0'', ''0000000000000000000000000000000000000000000000000000000000000000''),
         (''20.10.7'', ''be8c9a5a06ebec8fb1d36e867cd00fb5777746a9812a0cae2966778ff899c525'')]\<rparr>"

text \<open>A cluster that asks for a containerd version, with or without an override.\<close>

definition sampleCluster :: "PackagesConfig option \<Rightarrow> string \<Rightarrow> Cluster" where
  "sampleCluster pkgs version =
     \<lparr>Spec = \<lparr>Containerd = Some \<lparr>Packages = pkgs, Version = Some version\<rparr>\<rparr>\<rparr>"

text \<open>
  A digest for running the fetcher: the bytes \<^verbatim>\<open>good\<close> have the digest \<^verbatim>\<open>H\<close>, any other bytes
  the digest \<^verbatim>\<open>X\<close>. Of three mirrors the first fails every command, the second serves bytes
  of another digest to every command, and the third fails the two compressed commands,
  serves bytes of another digest to plain \<^verbatim>\<open>curl\<close> and the good bytes to plain \<^verbatim>\<open>wget\<close>. A
  second network fails every command.
\<close>

definition sampleDigest :: "string \<Rightarrow> string" where
  "sampleDigest bytes = (if bytes = ''good'' then ''H'' else ''X'')"

definition sampleNetwork :: network where
  "sampleNetwork n cmd url =
     (if url = ''https://c.example/nodeup'' \<and> cmd = commands ''nodeup'' ! 3 then Succeeded ''good''
      else if url = ''https://c.example/nodeup'' \<and> cmd = commands ''nodeup'' ! 2 then Succeeded ''bad''
      else if url = ''https://b.example/nodeup'' then Succeeded ''bad''
      else Failed None)"


definition sampleUrls :: "string list" where
  "sampleUrls = [''https://a.example/nodeup'', ''https://b.example/nodeup'', ''https://c.example/nodeup'']"

section \<open>Facts about the resolver\<close>

subsection \<open>Parsing the keys of the tables\<close>

lemmas semver_defs = ParseTolerant_def Parse_def parseNumber_def ParseUint_def containsOnly_def
  numbers_def alphas_def alphanum_def hasLeadingZeroes_def digit_def TrimSpace_def TrimPrefix_def
  isSpace_def trimZeroes_def Join_def NewPRVersion_def

lemma MustParse_134: "MustParse ''1.3.4'' = \<lparr>Major = 1, Minor = 3, Patch = 4, Pre = [], Build = []\<rparr>"
  by (simp add: MustParse_def semver_defs numeral_3_eq_3)

lemma MustParse_138: "MustParse ''1.3.8'' = \<lparr>Major = 1, Minor = 3, Patch = 8, Pre = [], Build = []\<rparr>"
  by (simp add: MustParse_def semver_defs numeral_3_eq_3)

lemma parse_keys:
  "ParseTolerant ''1.3.4'' = Some \<lparr>Major = 1, Minor = 3, Patch = 4, Pre = [], Build = []\<rparr>"
  "ParseTolerant ''1.3.7'' = Some \<lparr>Major = 1, Minor = 3, Patch = 7, Pre = [], Build = []\<rparr>"
  "ParseTolerant ''1.3.9'' = Some \<lparr>Major = 1, Minor = 3, Patch = 9, Pre = [], Build = []\<rparr>"
  "ParseTolerant ''1.3.10'' = Some \<lparr>Major = 1, Minor = 3, Patch = 10, Pre = [], Build = []\<rparr>"
  "ParseTolerant ''1.4.0'' = Some \<lparr>Major = 1, Minor = 4, Patch = 0, Pre = [], Build = []\<rparr>"
  "ParseTolerant ''1.4.1'' = Some \<lparr>Major = 1, Minor = 4, Patch = 1, Pre = [], Build = []\<rparr>"
  "ParseTolerant ''1.4.2'' = Some \<lparr>Major = 1, Minor = 4, Patch = 2, Pre = [], Build = []\<rparr>"
  "ParseTolerant ''1.4.3'' = Some \<lparr>Major = 1, Minor = 4, Patch = 3, Pre = [], Build = []\<rparr>"
  "ParseTolerant ''1.4.4'' = Some \<lparr>Major = 1, Minor = 4, Patch = 4, Pre = [], Build = []\<rparr>"
  "ParseTolerant ''1.4.5'' = Some \<lparr>Major = 1, Minor = 4, Patch = 5, Pre = [], Build = []\<rparr>"
  "ParseTolerant ''1.4.6'' = Some \<lparr>Major = 1, Minor = 4, Patch = 6, Pre = [], Build = []\<rparr>"
  "ParseTolerant ''1.4.7'' = Some \<lparr>Major = 1, Minor = 4, Patch = 7, Pre = [], Build = []\<rparr>"
  "ParseTolerant ''1.4.8'' = Some \<lparr>Major = 1, Minor = 4, Patch = 8, Pre = [], Build = []\<rparr>"
  "ParseTolerant ''1.4.9'' = Some \<lparr>Major = 1, Minor = 4, Patch = 9, Pre = [], Build = []\<rparr>"
  "ParseTolerant ''1.5.0'' = Some \<lparr>Major = 1, Minor = 5, Patch = 0, Pre = [], Build = []\<rparr>"
  "ParseTolerant ''1.5.1'' = Some \<lparr>Major = 1, Minor = 5, Patch = 1, Pre = [], Build = []\<rparr>"
  "ParseTolerant ''1.5.2'' = Some \<lparr>Major = 1, Minor = 5, Patch = 2, Pre = [], Build = []\<rparr>"
  "ParseTolerant ''1.5.3'' = Some \<lparr>Major = 1, Minor = 5, Patch = 3, Pre = [], Build = []\<rparr>"
  "ParseTolerant ''1.5.4'' = Some \<lparr>Major = 1, Minor = 5, Patch = 4, Pre = [], Build = []\<rparr>"
  "ParseTolerant ''1.5.5'' = Some \<lparr>Major = 1, Minor = 5, Patch = 5, Pre = [], Build = []\<rparr>"
  by (simp_all add: semver_defs numeral_3_eq_3)

lemma amd64_keys:
  assumes "index_map findAllContainerdHashesAmd64 v \<noteq> []"
  shows "v \<in> {''1.3.4'', ''1.3.9'', ''1.3.10'', ''1.4.0'', ''1.4.1'', ''1.4.2'', ''1.4.3'', ''1.4.4'', ''1.4.5'', ''1.4.6'', ''1.4.7'', ''1.4.8'', ''1.4.9'', ''1.5.0'', ''1.5.1'', ''1.5.2'', ''1.5.3'', ''1.5.4'', ''1.5.5''}"
  using assms unfolding index_map_def findAllContainerdHashesAmd64_def
  by (simp split: if_splits)

lemma mapping_keys:
  assumes "index_map findAllContainerdDockerMappings v \<noteq> []"
  shows "v \<in> {''1.3.7'', ''1.3.9'', ''1.4.3'', ''1.4.4'', ''1.4.6''}"
  using assms unfolding index_map_def findAllContainerdDockerMappings_def
  by (simp split: if_splits)

lemma amd64_key_parses:
  assumes "index_map findAllContainerdHashesAmd64 v \<noteq> []"
  shows "\<exists>sv. ParseTolerant v = Some sv \<and> \<not> LT sv (MustParse ''1.3.4'')"
proof -
  have "v \<in> {''1.3.4'', ''1.3.9'', ''1.3.10'', ''1.4.0'', ''1.4.1'', ''1.4.2'', ''1.4.3'',
              ''1.4.4'', ''1.4.5'', ''1.4.6'', ''1.4.7'', ''1.4.8'', ''1.4.9'', ''1.5.0'',
              ''1.5.1'', ''1.5.2'', ''1.5.3'', ''1.5.4'', ''1.5.5''}"
    using assms by (rule amd64_keys)
  then show ?thesis
    by (auto simp: parse_keys MustParse_134 LT_def Compare_def)
qed


lemma mapping_key_parses:
  assumes "index_map findAllContainerdDockerMappings v \<noteq> []"
  shows "\<exists>sv. ParseTolerant v = Some sv \<and> \<not> LT sv (MustParse ''1.3.4'')"
proof -
  have "v \<in> {''1.3.7'', ''1.3.9'', ''1.4.3'', ''1.4.4'', ''1.4.6''}"
    using assms by (rule mapping_keys)
  then show ?thesis
    by (auto simp: parse_keys MustParse_134 LT_def Compare_def)
qed


lemma Sprintf_current:
  "Sprintf containerdVersionUrlAmd64 [v, w] =
     ''https://github.com/containerd/containerd/releases/download/v'' @ v @
     ''/cri-containerd-cni-'' @ w @ ''-linux-amd64.tar.gz''"
  by (simp add: containerdVersionUrlAmd64_def)


lemma Sprintf_legacy:
  "Sprintf containerdLegacyUrlAmd64 [v] =
     ''https://storage.googleapis.com/cri-containerd-release/cri-containerd-'' @ v @
     ''.linux-amd64.tar.gz''"
  by (simp add: containerdLegacyUrlAmd64_def)


lemma Sprintf_nonempty:
  "f \<noteq> [] \<Longrightarrow> a \<noteq> [] \<Longrightarrow> Sprintf f (a # as) \<noteq> []"
  by (induction f "a # as" rule: Sprintf.induct) auto


lemma fallback_mapping: "index_map findAllContainerdDockerMappings containerdFallbackVersion = ''20.10.7''"
  by (simp add: index_map_def findAllContainerdDockerMappings_def containerdFallbackVersion_def)


lemma below_floor_not_in_tables:
  assumes "ParseTolerant v = Some sv" and "LT sv (MustParse ''1.3.4'')"
  shows "index_map findAllContainerdHashesAmd64 v = []"
    and "index_map findAllContainerdDockerMappings v = []"
  using assms amd64_key_parses [of v] mapping_key_parses [of v] by auto


lemma unparseable_not_in_tables:
  assumes "ParseTolerant v = None"
  shows "index_map findAllContainerdHashesAmd64 v = []"
    and "index_map findAllContainerdDockerMappings v = []"
  using assms amd64_key_parses [of v] mapping_key_parses [of v] by auto

subsection \<open>The three ways through \<^verbatim>\<open>findContainerdVersionUrlHash\<close>\<close>

lemma arch_distinct: "ArchitectureArm64 \<noteq> ArchitectureAmd64"
  by (simp add: ArchitectureArm64_def ArchitectureAmd64_def)

lemma resolve_arm64_dv:
  assumes "index_map findAllContainerdHashesAmd64 version \<noteq> []"
    and "dockerVersionUrlArm64 D \<noteq> []"
    and dv: "dv = (if index_map findAllContainerdDockerMappings version \<noteq> []
                then index_map findAllContainerdDockerMappings version
                else index_map findAllContainerdDockerMappings containerdFallbackVersion)"
  shows "findContainerdVersionUrlHash D ArchitectureArm64 version =
           (if index_map (findAllDockerHashesArm64 D) dv = []
            then Inl (UnknownHash ArchitectureArm64 version)
            else Inr (Sprintf (dockerVersionUrlArm64 D) [dv],
                      index_map (findAllDockerHashesArm64 D) dv))"
proof -
  from assms(1) amd64_key_parses [of version]
  obtain sv where sv: "ParseTolerant version = Some sv" "\<not> LT sv (MustParse ''1.3.4'')"
    by auto
  have ne: "dv \<noteq> []" using dv by (auto simp: fallback_mapping)
  have url: "Sprintf (dockerVersionUrlArm64 D) [dv] \<noteq> []"
    using assms(2) ne by (rule Sprintf_nonempty)
  have u: "findContainerdVersionUrl D ArchitectureArm64 version =
             Inr (Sprintf (dockerVersionUrlArm64 D) [dv])"
    using sv assms(1) arch_distinct url unfolding dv
    by (cases "index_map findAllContainerdDockerMappings version = []")
       (simp_all add: findContainerdVersionUrl_def)
  have h: "findContainerdVersionHash D ArchitectureArm64 version =
             (if index_map (findAllDockerHashesArm64 D) dv = []
              then Inl (UnknownHash ArchitectureArm64 version)
              else Inr (index_map (findAllDockerHashesArm64 D) dv))"
    using sv assms(1) arch_distinct unfolding dv
    by (cases "index_map findAllContainerdDockerMappings version = []")
       (simp_all add: findContainerdVersionHash_def)
  show ?thesis
    using assms(1) u h by (simp add: findContainerdVersionUrlHash_def)
qed

lemma resolve_amd64_native:
  assumes "index_map findAllContainerdHashesAmd64 version \<noteq> []"
    and "ParseTolerant version = Some sv"
  shows "findContainerdVersionUrlHash D ArchitectureAmd64 version =
           Inr (if GTE sv (MustParse ''1.3.8'')
                then Sprintf containerdVersionUrlAmd64 [version, version]
                else Sprintf containerdLegacyUrlAmd64 [version],
                index_map findAllContainerdHashesAmd64 version)"
proof -
  from assms amd64_key_parses [of version]
  have floor: "\<not> LT sv (MustParse ''1.3.4'')" by auto
  have u: "findContainerdVersionUrl D ArchitectureAmd64 version =
             Inr (if GTE sv (MustParse ''1.3.8'')
                  then Sprintf containerdVersionUrlAmd64 [version, version]
                  else Sprintf containerdLegacyUrlAmd64 [version])"
    using assms(2) floor
    by (simp add: findContainerdVersionUrl_def Sprintf_current Sprintf_legacy)
  have h: "findContainerdVersionHash D ArchitectureAmd64 version =
             Inr (index_map findAllContainerdHashesAmd64 version)"
    using assms floor by (simp add: findContainerdVersionHash_def)
  show ?thesis
    using assms(1) u h by (simp add: findContainerdVersionUrlHash_def)
qed

lemma resolve_unknown:
  assumes "index_map findAllContainerdHashesAmd64 version = []"
    and "index_map findAllContainerdDockerMappings version = []"
  shows "findContainerdVersionUrlHash D arch version = Inl (UnknownUrlAndHash arch version)"
  using assms by (simp add: findContainerdVersionUrlHash_def)

lemma asset_by_version:
  assumes "Containerd (Spec c) = Some cd"
    and "case Packages cd of None \<Rightarrow> True
         | Some p \<Rightarrow> \<not> (arch = ArchitectureAmd64 \<and> UrlAmd64 p \<noteq> None \<and> HashAmd64 p \<noteq> None)
                   \<and> \<not> (arch = ArchitectureArm64 \<and> UrlArm64 p \<noteq> None \<and> HashArm64 p \<noteq> None)"
  shows "findContainerdAsset F D c ab arch =
           (if StringValue (Version cd) = [] then Inl NoContainerdVersion
            else (case findContainerdVersionUrlHash D arch (StringValue (Version cd)) of
                    Inl err \<Rightarrow> Inl err
                  | Inr (u, h) \<Rightarrow> F ab u h))"
proof (cases "Packages cd")
  case None
  with assms(1) show ?thesis
    by (simp add: findContainerdAsset_def)
next
  case (Some p)
  with assms(2) have
    a: "\<not> (arch = ArchitectureAmd64 \<and> UrlAmd64 p \<noteq> None \<and> HashAmd64 p \<noteq> None)" and
    b: "\<not> (arch = ArchitectureArm64 \<and> UrlArm64 p \<noteq> None \<and> HashArm64 p \<noteq> None)"
    by simp_all
  show ?thesis
    unfolding findContainerdAsset_def using assms(1) Some
    by (simp only: option.case if_not_P [OF a] if_not_P [OF b] Let_def)
qed

subsection \<open>The resolver on the sample inputs\<close>

lemma sample_native_1_4_9:
  "findContainerdVersionUrlHash D ArchitectureAmd64 ''1.4.9'' =
     Inr (''https://github.com/containerd/containerd/releases/download/v1.4.9/cri-containerd-cni-1.4.9-linux-amd64.tar.gz'',
          ''9911479f86012d6eab7e0f532da8f807a8b0f555ee09ef89367d8c31243073bb'')"
proof -
  have t: "index_map findAllContainerdHashesAmd64 ''1.4.9'' =
             ''9911479f86012d6eab7e0f532da8f807a8b0f555ee09ef89367d8c31243073bb''"
    by (simp add: index_map_def findAllContainerdHashesAmd64_def)
  have g: "GTE \<lparr>Major = 1, Minor = 4, Patch = 9, Pre = [], Build = []\<rparr> (MustParse ''1.3.8'')"
    by (simp add: GTE_def Compare_def MustParse_138)
  show ?thesis
    using resolve_amd64_native [of "''1.4.9''" _ D, OF _ parse_keys(14)] g
    by (simp add: t Sprintf_current)
qed

lemma sampleDocker_simps:
  "dockerVersionUrlArm64 sampleDocker =
     ''https://download.docker.com/linux/static/stable/aarch64/docker-%s.tgz''"
  "index_map (findAllDockerHashesArm64 sampleDocker) ''20.10.0'' =
     ''0000000000000000000000000000000000000000000000000000000000000000''"
  "index_map (findAllDockerHashesArm64 sampleDocker) ''20.10.7'' =
     ''be8c9a5a06ebec8fb1d36e867cd00fb5777746a9812a0cae2966778ff899c525''"
  by (simp_all add: sampleDocker_def index_map_def)

lemma parse_1_2_0:
  "ParseTolerant ''1.2.0'' = Some \<lparr>Major = 1, Minor = 2, Patch = 0, Pre = [], Build = []\<rparr>"
  by (simp add: semver_defs numeral_3_eq_3)

lemma below_1_2_0:
  "LT \<lparr>Major = 1, Minor = 2, Patch = 0, Pre = [], Build = []\<rparr> (MustParse ''1.3.4'')"
  by (simp add: LT_def Compare_def MustParse_134)

lemma parse_latest: "ParseTolerant ''latest'' = None"
  by (simp add: semver_defs numeral_3_eq_3)

section \<open>Facts about the fetcher\<close>

subsection \<open>One URL, one pass\<close>

lemma validate_hash_Some:
  "validate_hash H (Some b) hash = (H b = hash)"
  by (simp add: validate_hash_def)

lemma verifies_Succeeded:
  "verifies H hash (Succeeded b) = (H b = hash)"
  by (simp add: verifies_def validate_hash_def)

lemma try_commands_fail:
  assumes "\<forall>cmd \<in> set cmds. \<forall>n. \<not> verifies H hash (net n cmd url)"
  shows "\<exists>left. try_commands H net hash url cmds m =
           (False, m\<lparr>target := left,
                     attempts := attempts m @ map (\<lambda>cmd. (cmd, url)) cmds\<rparr>)"
  using assms
proof (induction cmds arbitrary: m)
  case Nil
  show ?case by (rule exI [of _ "target m"]) simp
next
  case (Cons cmd cmds)
  from Cons.prems have rest: "\<forall>c \<in> set cmds. \<forall>n. \<not> verifies H hash (net n c url)"
    by simp
  from Cons.prems have here: "\<not> verifies H hash (net (length (attempts m)) cmd url)"
    by simp
  note IH = Cons.IH [OF rest]
  show ?case
  proof (cases "net (length (attempts m)) cmd url")
    case (Failed left)
    from IH [of "m\<lparr>target := left, attempts := attempts m @ [(cmd, url)]\<rparr>"]
    obtain t where "try_commands H net hash url cmds
          (m\<lparr>target := left, attempts := attempts m @ [(cmd, url)]\<rparr>) =
        (False, m\<lparr>target := t, attempts := attempts m @ map (\<lambda>cmd. (cmd, url)) (cmd # cmds)\<rparr>)"
      by auto
    with Failed show ?thesis by auto
  next
    case (Succeeded bytes)
    with here have ne: "H bytes \<noteq> hash"
      by (simp add: verifies_Succeeded)
    from IH [of "m\<lparr>attempts := attempts m @ [(cmd, url)], target := None\<rparr>"]
    obtain t where "try_commands H net hash url cmds
          (m\<lparr>attempts := attempts m @ [(cmd, url)], target := None\<rparr>) =
        (False, m\<lparr>target := t, attempts := attempts m @ map (\<lambda>cmd. (cmd, url)) (cmd # cmds)\<rparr>)"
      by auto
    with Succeeded ne show ?thesis by (auto simp: validate_hash_Some)
  qed
qed

lemma try_commands_succeed:
  assumes "\<forall>c \<in> set pre. \<forall>n. \<not> verifies H hash (net n c url)"
    and "\<forall>n. net n cmd url = Succeeded bytes" and "H bytes = hash"
  shows "try_commands H net hash url (pre @ cmd # post) m =
           (True, m\<lparr>target := Some bytes,
                    attempts := attempts m @ map (\<lambda>c. (c, url)) (pre @ [cmd])\<rparr>)"
  using assms(1)
proof (induction pre arbitrary: m)
  case Nil
  then show ?case using assms(2,3) by (simp add: validate_hash_Some)
next
  case (Cons c pre)
  from Cons.prems have rest: "\<forall>c \<in> set pre. \<forall>n. \<not> verifies H hash (net n c url)"
    by simp
  from Cons.prems have here: "\<not> verifies H hash (net (length (attempts m)) c url)"
    by simp
  note IH = Cons.IH [OF rest]
  show ?case
  proof (cases "net (length (attempts m)) c url")
    case (Failed left)
    then show ?thesis
      using IH [of "m\<lparr>target := left, attempts := attempts m @ [(c, url)]\<rparr>"] by simp
  next
    case (Succeeded b)
    with here have "H b \<noteq> hash"
      by (simp add: verifies_Succeeded)
    with Succeeded show ?thesis
      using IH [of "m\<lparr>attempts := attempts m @ [(c, url)], target := None\<rparr>"]
      by (simp add: validate_hash_Some)
  qed
qed

lemma try_commands_verified:
  assumes "fst (try_commands H net hash url cmds m)"
  shows "\<exists>b. target (snd (try_commands H net hash url cmds m)) = Some b \<and> H b = hash"
  using assms
proof (induction cmds arbitrary: m)
  case Nil
  then show ?case by simp
next
  case (Cons cmd cmds)
  show ?case
  proof (cases "net (length (attempts m)) cmd url")
    case (Failed left)
    then show ?thesis using Cons by simp
  next
    case (Succeeded bytes)
    then show ?thesis using Cons
      by (cases "H bytes = hash") (simp_all add: validate_hash_Some)
  qed
qed

lemma try_commands_returned_verifies:
  assumes "fst (try_commands H net hash url cmds m)"
  shows "\<exists>n cmd. verifies H hash (net n cmd url)"
  using assms try_commands_fail [of cmds H hash net url m]
  by (metis fst_conv)

lemma try_urls_Cons:
  "try_urls H net file hash (url # rest) m =
     (if fst (try_commands H net hash url (commands file) m)
      then (True, snd (try_commands H net hash url (commands file) m))
      else try_urls H net file hash rest (snd (try_commands H net hash url (commands file) m)))"
  by (cases "try_commands H net hash url (commands file) m") (simp split: bool.splits)


lemma try_urls_succeed:
  assumes "\<forall>url \<in> set bad. \<forall>c \<in> set (commands file). \<forall>n. \<not> verifies H hash (net n c url)"
    and "commands file = pre @ cmd # post"
    and "\<forall>c \<in> set pre. \<forall>n. \<not> verifies H hash (net n c good)"
    and "\<forall>n. net n cmd good = Succeeded bytes" and "H bytes = hash"
  shows "try_urls H net file hash (bad @ good # rest) m =
           (True, m\<lparr>target := Some bytes,
                    attempts := attempts m @ pass_attempts file bad @
                                map (\<lambda>c. (c, good)) (pre @ [cmd])\<rparr>)"
  using assms(1)
proof (induction bad arbitrary: m)
  case Nil
  have "try_commands H net hash good (pre @ cmd # post) m =
           (True, m\<lparr>target := Some bytes,
                    attempts := attempts m @ map (\<lambda>c. (c, good)) (pre @ [cmd])\<rparr>)"
    using assms(3,4,5) by (rule try_commands_succeed [of pre H hash net good cmd bytes post m])
  then show ?case
    by (simp add: try_urls_Cons assms(2) pass_attempts_def del: try_urls.simps(2))
next
  case (Cons url bad)
  from Cons.prems
  have here: "\<forall>cmd \<in> set (commands file). \<forall>n. \<not> verifies H hash (net n cmd url)"
    and others: "\<forall>u \<in> set bad. \<forall>cmd \<in> set (commands file). \<forall>n. \<not> verifies H hash (net n cmd u)"
    by simp_all
  from try_commands_fail [of "commands file" H hash net url m] here
  obtain t where t: "try_commands H net hash url (commands file) m =
      (False, m\<lparr>target := t, attempts := attempts m @ map (\<lambda>cmd. (cmd, url)) (commands file)\<rparr>)"
    by blast
  from Cons.IH [OF others,
      of "m\<lparr>target := t, attempts := attempts m @ map (\<lambda>cmd. (cmd, url)) (commands file)\<rparr>"]
  have "try_urls H net file hash (bad @ good # rest)
        (m\<lparr>target := t, attempts := attempts m @ map (\<lambda>cmd. (cmd, url)) (commands file)\<rparr>) =
      (True, m\<lparr>target := Some bytes,
               attempts := attempts m @ pass_attempts file (url # bad) @
                           map (\<lambda>c. (c, good)) (pre @ [cmd])\<rparr>)"
    by (simp add: pass_attempts_def)
  with t show ?case
    by (simp add: try_urls_Cons del: try_urls.simps(2))
qed

lemma try_urls_verified:
  assumes "fst (try_urls H net file hash us m)"
  shows "\<exists>b. target (snd (try_urls H net file hash us m)) = Some b \<and> H b = hash"
  using assms
proof (induction us arbitrary: m)
  case Nil
  then show ?case by simp
next
  case (Cons url us)
  show ?case
  proof (cases "fst (try_commands H net hash url (commands file) m)")
    case True
    with try_commands_verified [OF True] show ?thesis
      by (simp add: try_urls_Cons del: try_urls.simps(2))
  next
    case False
    with Cons show ?thesis
      by (simp add: try_urls_Cons del: try_urls.simps(2))
  qed
qed

subsection \<open>The loop\<close>

lemma download_loop_returns:
  assumes "fst (try_urls H net file hash us m)"
  shows "download_loop H net file hash us m = Some (snd (try_urls H net file hash us m))"
  using assms by (subst download_loop.simps) simp


lemma download_loop_verified:
  assumes "download_loop H net file hash us m = Some m'"
  shows "\<exists>b. target m' = Some b \<and> H b = hash"
proof (rule download_loop.raw_induct
    [where P = "\<lambda>H net file hash us m m'. \<exists>b. target m' = Some b \<and> H b = hash", OF _ assms])
  fix loop :: "(string \<Rightarrow> string) \<Rightarrow> network \<Rightarrow> string \<Rightarrow> string \<Rightarrow> string list \<Rightarrow> machine
       \<Rightarrow> machine option"
  fix H net fname hash us m m'
  assume IH: "\<And>H net fname hash us m y. loop H net fname hash us m = Some y
                \<Longrightarrow> \<exists>b. target y = Some b \<and> H b = hash"
  assume step: "(if fst (try_urls H net fname hash us m)
      then Some (snd (try_urls H net fname hash us m))
      else loop H net fname hash us
            ((snd (try_urls H net fname hash us m))
             \<lparr>slept := slept (snd (try_urls H net fname hash us m)) + 60\<rparr>)) = Some m'"
  show "\<exists>b. target m' = Some b \<and> H b = hash"
  proof (cases "fst (try_urls H net fname hash us m)")
    case True
    from step have "m' = snd (try_urls H net fname hash us m)"
      by (simp only: if_P [OF True] option.inject)
    with try_urls_verified [OF True] show ?thesis by simp
  next
    case False
    from step have "loop H net fname hash us
             ((snd (try_urls H net fname hash us m))
                \<lparr>slept := slept (snd (try_urls H net fname hash us m)) + 60\<rparr>) = Some m'"
      by (simp only: if_not_P [OF False])
    then show ?thesis by (rule IH)
  qed
qed



lemma download_or_bust_verified:
  assumes "download_or_bust H net file hash us m = Some (st, m')"
  shows "\<exists>b. target m' = Some b \<and> H b = hash"
    and "st = (if target m \<noteq> None \<and> validate_hash H (target m) hash then 1 else 0)"
proof -
  have "(\<exists>b. target m' = Some b \<and> H b = hash) \<and>
        st = (if target m \<noteq> None \<and> validate_hash H (target m) hash then 1 else 0)"
  proof (cases "target m")
    case None
    with assms have "download_loop H net file hash us m = Some m'" and "st = 0"
      by (auto simp: download_or_bust_def)
    with None download_loop_verified [of H net "file" hash us m m'] show ?thesis
      by simp
  next
    case (Some b)
    show ?thesis
    proof (cases "H b = hash")
      case True
      with Some assms have "m' = m" and "st = 1"
        by (simp_all add: download_or_bust_def validate_hash_Some)
      with Some True show ?thesis by (simp add: validate_hash_Some)
    next
      case False
      with Some assms
      have "download_loop H net file hash us (m\<lparr>target := None\<rparr>) = Some m'" and "st = 0"
        by (auto simp: download_or_bust_def validate_hash_Some)
      with Some False
        download_loop_verified [of H net "file" hash us "m\<lparr>target := None\<rparr>" m']
      show ?thesis
        by (simp add: validate_hash_Some)
    qed
  qed
  then show "\<exists>b. target m' = Some b \<and> H b = hash"
    and "st = (if target m \<noteq> None \<and> validate_hash H (target m) hash then 1 else 0)"
    by blast+
qed


subsection \<open>The fetcher on the sample inputs\<close>

lemma sample_commands:
  "commands ''nodeup'' =
     [''curl -f --compressed -Lo nodeup --connect-timeout 20 --retry 6 --retry-delay 10'',
      ''wget --compression=auto -O nodeup --connect-timeout=20 --tries=6 --wait=10'',
      ''curl -f -Lo nodeup --connect-timeout 20 --retry 6 --retry-delay 10'',
      ''wget -O nodeup --connect-timeout=20 --tries=6 --wait=10'']"
  by (simp add: commands_def)

lemma sample_bad:
  "\<forall>url \<in> set [''https://a.example/nodeup'', ''https://b.example/nodeup''].
     \<forall>c \<in> set (commands ''nodeup''). \<forall>n. \<not> verifies sampleDigest ''H'' (sampleNetwork n c url)"
  by (simp add: sample_commands sampleNetwork_def verifies_def validate_hash_def sampleDigest_def)

lemma sample_pre:
  "\<forall>c \<in> set [''curl -f --compressed -Lo nodeup --connect-timeout 20 --retry 6 --retry-delay 10'',
              ''wget --compression=auto -O nodeup --connect-timeout=20 --tries=6 --wait=10'',
              ''curl -f -Lo nodeup --connect-timeout 20 --retry 6 --retry-delay 10''].
     \<forall>n. \<not> verifies sampleDigest ''H'' (sampleNetwork n c ''https://c.example/nodeup'')"
  by (simp add: sample_commands sampleNetwork_def verifies_def validate_hash_def sampleDigest_def)

lemma sample_good:
  "\<forall>n. sampleNetwork n ''wget -O nodeup --connect-timeout=20 --tries=6 --wait=10''
         ''https://c.example/nodeup'' = Succeeded ''good''"
  by (simp add: sample_commands sampleNetwork_def)

lemma sample_split:
  "commands ''nodeup'' =
     [''curl -f --compressed -Lo nodeup --connect-timeout 20 --retry 6 --retry-delay 10'',
      ''wget --compression=auto -O nodeup --connect-timeout=20 --tries=6 --wait=10'',
      ''curl -f -Lo nodeup --connect-timeout 20 --retry 6 --retry-delay 10''] @
     ''wget -O nodeup --connect-timeout=20 --tries=6 --wait=10'' # []"
  by (simp add: sample_commands)

lemma sample_pass:
  "try_urls sampleDigest sampleNetwork ''nodeup'' ''H'' sampleUrls m =
     (True, m\<lparr>target := Some ''good'',
              attempts := attempts m @ pass_attempts ''nodeup'' sampleUrls\<rparr>)"
proof -
  have d: "sampleDigest ''good'' = ''H''" by (simp add: sampleDigest_def)
  from try_urls_succeed [OF sample_bad sample_split sample_pre sample_good d, of "[]" m]
  show ?thesis
    by (simp add: sampleUrls_def pass_attempts_def sample_commands)
qed


section \<open>The claims about the resolver\<close>

text \<open>
  Claim C1 (override precedence). When the override package of the cluster has both the URL
  and the hash of the requested architecture (amd64 or arm64), \<^verbatim>\<open>findContainerdAsset\<close> returns
  what \<^verbatim>\<open>findAssetsUrlHash\<close> builds from exactly that URL and that hash. The result is the same
  for every version field \<open>v\<close> (also \<^verbatim>\<open>nil\<close>, an unparseable string or a version with an entry in
  the hash table) and for every docker side \<open>D\<close>: neither the tables nor the version are
  consulted. The witness runs it on version 1.4.9, which has a native entry, with the
  descriptor built verbatim.
\<close>

theorem override_precedence:
  assumes "(arch = ArchitectureAmd64 \<and> UrlAmd64 p = Some u \<and> HashAmd64 p = Some h) \<or>
           (arch = ArchitectureArm64 \<and> UrlArm64 p = Some u \<and> HashArm64 p = Some h)"
  shows "findContainerdAsset F D
           \<lparr>Spec = \<lparr>Containerd = Some \<lparr>Packages = Some p, Version = v\<rparr>\<rparr>\<rparr> ab arch
         = F ab u h"
  using assms arch_distinct
  by (auto simp: findContainerdAsset_def StringValue_def)

theorem override_precedence_witness:
  "findContainerdAsset verbatimDescriptor sampleDocker
     (sampleCluster
        (Some \<lparr>UrlAmd64 = Some ''https://mirror.example/containerd.tar.gz'',
               HashAmd64 = Some ''7d4e6bbcd1cb6e0c7e3a2cfb0a2fe1b4a2a3d1c5d5e8a6b9c1f0e3d2c4b5a697'',
               UrlArm64 = None, HashArm64 = None\<rparr>)
        ''1.4.9'') () ArchitectureAmd64
   = Inr \<lparr>asset_sha256 = ''7d4e6bbcd1cb6e0c7e3a2cfb0a2fe1b4a2a3d1c5d5e8a6b9c1f0e3d2c4b5a697'',
          asset_urls = [''https://mirror.example/containerd.tar.gz'']\<rparr>
   \<and> index_map findAllContainerdHashesAmd64 ''1.4.9'' \<noteq> []"
  using override_precedence
    [of ArchitectureAmd64
        "\<lparr>UrlAmd64 = Some ''https://mirror.example/containerd.tar.gz'',
          HashAmd64 = Some ''7d4e6bbcd1cb6e0c7e3a2cfb0a2fe1b4a2a3d1c5d5e8a6b9c1f0e3d2c4b5a697'',
          UrlArm64 = None, HashArm64 = None\<rparr>"
        "''https://mirror.example/containerd.tar.gz''"
        "''7d4e6bbcd1cb6e0c7e3a2cfb0a2fe1b4a2a3d1c5d5e8a6b9c1f0e3d2c4b5a697''"
        verbatimDescriptor sampleDocker "Some ''1.4.9''" "()"]
  by (simp add: sampleCluster_def verbatimDescriptor_def index_map_def
        findAllContainerdHashesAmd64_def)

text \<open>
  Claim C2 (fallback to the default version), as amended. The claim as stated fails: the
  lookup in the amd64 hash table comes first, and a version with no entry there and no entry
  in the docker mapping is not given the default fallback version; it fails with the error
  ``unknown url and hash''. What holds: for a version \<open>V\<close> that has no entry in the docker
  mapping, on arm64, with a non-empty arm64 docker URL template,
  \<^item> the fallback version 1.4.6 is mapped to docker 20.10.7;
  \<^item> if \<open>V\<close> has an entry in the amd64 hash table, the result is the arm64 docker URL and
    hash of docker 20.10.7, and the only failure is ``unknown hash'' when the arm64 docker
    table has no entry for 20.10.7;
  \<^item> if \<open>V\<close> has no entry in the amd64 hash table, the result is the error ``unknown url
    and hash'' for \<open>V\<close>.
\<close>

theorem default_fallback:
  assumes "dockerVersionUrlArm64 D \<noteq> []"
    and "index_map findAllContainerdDockerMappings V = []"
  shows "index_map findAllContainerdDockerMappings containerdFallbackVersion = ''20.10.7'' \<and>
         (if index_map findAllContainerdHashesAmd64 V \<noteq> []
          then findContainerdVersionUrlHash D ArchitectureArm64 V =
                 (if index_map (findAllDockerHashesArm64 D) ''20.10.7'' = []
                  then Inl (UnknownHash ArchitectureArm64 V)
                  else Inr (Sprintf (dockerVersionUrlArm64 D) [''20.10.7''],
                            index_map (findAllDockerHashesArm64 D) ''20.10.7''))
          else findContainerdVersionUrlHash D ArchitectureArm64 V =
                 Inl (UnknownUrlAndHash ArchitectureArm64 V))"
proof (cases "index_map findAllContainerdHashesAmd64 V = []")
  case True
  with assms(2) resolve_unknown [of V D ArchitectureArm64] show ?thesis
    by (simp add: fallback_mapping)
next
  case False
  from resolve_arm64_dv [OF False assms(1), of "''20.10.7''"] assms(2) False show ?thesis
    by (simp add: fallback_mapping)
qed

theorem default_fallback_witness:
  "dockerVersionUrlArm64 sampleDocker \<noteq> [] \<and>
   index_map findAllContainerdDockerMappings ''1.4.9'' = [] \<and>
   index_map findAllContainerdHashesAmd64 ''1.4.9'' \<noteq> [] \<and>
   findContainerdVersionUrlHash sampleDocker ArchitectureArm64 ''1.4.9'' =
     Inr (''https://download.docker.com/linux/static/stable/aarch64/docker-20.10.7.tgz'',
          ''be8c9a5a06ebec8fb1d36e867cd00fb5777746a9812a0cae2966778ff899c525'')"
proof -
  have m: "index_map findAllContainerdDockerMappings ''1.4.9'' = []"
    by (simp add: index_map_def findAllContainerdDockerMappings_def)
  have t: "index_map findAllContainerdHashesAmd64 ''1.4.9'' \<noteq> []"
    by (simp add: index_map_def findAllContainerdHashesAmd64_def)
  from default_fallback [of sampleDocker "''1.4.9''"] m t show ?thesis
    by (simp add: sampleDocker_simps)
qed

text \<open>
  The counterexample to C2 as stated: version 1.6.0 parses, is above the floor, has no arm64
  build and no entry in the docker mapping; the default fallback has a bundler entry in the
  sample docker table; still the resolution on arm64 fails, purely because 1.6.0 is unmapped.
\<close>

theorem default_fallback_counterexample:
  "ParseTolerant ''1.6.0'' = Some \<lparr>Major = 1, Minor = 6, Patch = 0, Pre = [], Build = []\<rparr> \<and>
   index_map findAllContainerdDockerMappings ''1.6.0'' = [] \<and>
   index_map (findAllDockerHashesArm64 sampleDocker)
     (index_map findAllContainerdDockerMappings containerdFallbackVersion) =
     ''be8c9a5a06ebec8fb1d36e867cd00fb5777746a9812a0cae2966778ff899c525'' \<and>
   findContainerdVersionUrlHash sampleDocker ArchitectureArm64 ''1.6.0'' =
     Inl (UnknownUrlAndHash ArchitectureArm64 ''1.6.0'')"
proof -
  have m: "index_map findAllContainerdDockerMappings ''1.6.0'' = []"
    by (simp add: index_map_def findAllContainerdDockerMappings_def)
  have t: "index_map findAllContainerdHashesAmd64 ''1.6.0'' = []"
    by (simp add: index_map_def findAllContainerdHashesAmd64_def)
  have p: "ParseTolerant ''1.6.0'' = Some \<lparr>Major = 1, Minor = 6, Patch = 0, Pre = [], Build = []\<rparr>"
    by (simp add: semver_defs numeral_3_eq_3)
  show ?thesis
    using resolve_unknown [OF t m, of sampleDocker ArchitectureArm64] m p
    by (simp add: fallback_mapping sampleDocker_simps)
qed

text \<open>
  Claim C3 (legacy floor), as amended. The claim as stated fails for the resolution as a
  whole: \<^verbatim>\<open>findContainerdVersionUrlHash\<close> looks the version up in the amd64 hash table before
  anything is parsed, and no key of the two tables parses below 1.3.4. What holds, for every
  architecture value and every version string that parses strictly below 1.3.4:
  \<^item> \<^verbatim>\<open>findContainerdVersionUrl\<close> and \<^verbatim>\<open>findContainerdVersionHash\<close> fail with the error
    ``unsupported legacy containerd version'';
  \<^item> \<^verbatim>\<open>findContainerdVersionUrlHash\<close>, and \<^verbatim>\<open>findContainerdAsset\<close> for a cluster with no
    override package, fail with the error ``unknown url and hash''.
\<close>

theorem legacy_floor:
  assumes "ParseTolerant version = Some sv" and "LT sv (MustParse ''1.3.4'')"
  shows "findContainerdVersionUrl D arch version = Inl (UnsupportedLegacyVersion version) \<and>
         findContainerdVersionHash D arch version = Inl (UnsupportedLegacyVersion version) \<and>
         findContainerdVersionUrlHash D arch version = Inl (UnknownUrlAndHash arch version) \<and>
         findContainerdAsset F D
           \<lparr>Spec = \<lparr>Containerd = Some \<lparr>Packages = None, Version = Some version\<rparr>\<rparr>\<rparr> ab arch
           = Inl (UnknownUrlAndHash arch version)"
proof -
  have u: "findContainerdVersionUrl D arch version = Inl (UnsupportedLegacyVersion version)"
    using assms by (simp add: findContainerdVersionUrl_def)
  have h: "findContainerdVersionHash D arch version = Inl (UnsupportedLegacyVersion version)"
    using assms by (simp add: findContainerdVersionHash_def)
  have r: "findContainerdVersionUrlHash D arch version = Inl (UnknownUrlAndHash arch version)"
    using below_floor_not_in_tables [OF assms] by (rule resolve_unknown)
  have "ParseTolerant [] = None"
    by (simp add: semver_defs numeral_3_eq_3)
  with assms(1) have ne: "version \<noteq> []" by auto
  have a: "findContainerdAsset F D
           \<lparr>Spec = \<lparr>Containerd = Some \<lparr>Packages = None, Version = Some version\<rparr>\<rparr>\<rparr> ab arch
           = Inl (UnknownUrlAndHash arch version)"
    using ne r
    by (subst asset_by_version [where cd = "\<lparr>Packages = None, Version = Some version\<rparr>"])
       (simp_all add: StringValue_def)
  from u h r a show ?thesis by simp
qed

theorem legacy_floor_witness:
  "ParseTolerant ''1.2.0'' = Some \<lparr>Major = 1, Minor = 2, Patch = 0, Pre = [], Build = []\<rparr> \<and>
   LT \<lparr>Major = 1, Minor = 2, Patch = 0, Pre = [], Build = []\<rparr> (MustParse ''1.3.4'') \<and>
   findContainerdVersionUrl sampleDocker ArchitectureArm64 ''1.2.0'' =
     Inl (UnsupportedLegacyVersion ''1.2.0'') \<and>
   findContainerdVersionHash sampleDocker ArchitectureArm64 ''1.2.0'' =
     Inl (UnsupportedLegacyVersion ''1.2.0'') \<and>
   findContainerdVersionUrlHash sampleDocker ArchitectureArm64 ''1.2.0'' =
     Inl (UnknownUrlAndHash ArchitectureArm64 ''1.2.0'') \<and>
   findContainerdAsset verbatimDescriptor sampleDocker (sampleCluster None ''1.2.0'') ()
     ArchitectureArm64 = Inl (UnknownUrlAndHash ArchitectureArm64 ''1.2.0'')"
  using legacy_floor [OF parse_1_2_0 below_1_2_0,
      of sampleDocker ArchitectureArm64 verbatimDescriptor "()"]
    parse_1_2_0 below_1_2_0
  by (simp add: sampleCluster_def)

text \<open>
  The counterexample to C3 as stated: version 1.2.0 parses below 1.3.4, there is no override,
  and the resolution on amd64 fails with ``unknown url and hash'', not with the legacy error.
\<close>

theorem legacy_floor_counterexample:
  "ParseTolerant ''1.2.0'' = Some \<lparr>Major = 1, Minor = 2, Patch = 0, Pre = [], Build = []\<rparr> \<and>
   LT \<lparr>Major = 1, Minor = 2, Patch = 0, Pre = [], Build = []\<rparr> (MustParse ''1.3.4'') \<and>
   findContainerdAsset verbatimDescriptor sampleDocker (sampleCluster None ''1.2.0'') ()
     ArchitectureAmd64 = Inl (UnknownUrlAndHash ArchitectureAmd64 ''1.2.0'') \<and>
   findContainerdAsset verbatimDescriptor sampleDocker (sampleCluster None ''1.2.0'') ()
     ArchitectureAmd64 \<noteq> Inl (UnsupportedLegacyVersion ''1.2.0'')"
proof -
  have r: "findContainerdVersionUrlHash sampleDocker ArchitectureAmd64 ''1.2.0'' =
             Inl (UnknownUrlAndHash ArchitectureAmd64 ''1.2.0'')"
    using below_floor_not_in_tables [OF parse_1_2_0 below_1_2_0] by (rule resolve_unknown)
  have "findContainerdAsset verbatimDescriptor sampleDocker (sampleCluster None ''1.2.0'') ()
     ArchitectureAmd64 = Inl (UnknownUrlAndHash ArchitectureAmd64 ''1.2.0'')"
    by (subst asset_by_version [where cd = "\<lparr>Packages = None, Version = Some ''1.2.0''\<rparr>"])
       (simp_all add: sampleCluster_def StringValue_def r)
  then show ?thesis
    using parse_1_2_0 below_1_2_0 by simp
qed

text \<open>
  Claim C4 (invalid version), as amended. The claim as stated fails for the resolution as a
  whole, for the same reason as C3: the table lookup comes before the parse, and every key of
  the two tables parses. What holds, for every architecture value and every version string
  that does not parse:
  \<^item> \<^verbatim>\<open>findContainerdVersionUrl\<close> and \<^verbatim>\<open>findContainerdVersionHash\<close> fail with the error
    ``unable to parse version string'';
  \<^item> \<^verbatim>\<open>findContainerdVersionUrlHash\<close> fails with the error ``unknown url and hash'';
  \<^item> \<^verbatim>\<open>findContainerdAsset\<close>, for a cluster with no override package, fails with ``unable to
    find containerd version'' when the string is empty and with ``unknown url and hash''
    otherwise.
\<close>

theorem invalid_version:
  assumes "ParseTolerant version = None"
  shows "findContainerdVersionUrl D arch version = Inl (UnparseableVersion version) \<and>
         findContainerdVersionHash D arch version = Inl (UnparseableVersion version) \<and>
         findContainerdVersionUrlHash D arch version = Inl (UnknownUrlAndHash arch version) \<and>
         findContainerdAsset F D
           \<lparr>Spec = \<lparr>Containerd = Some \<lparr>Packages = None, Version = Some version\<rparr>\<rparr>\<rparr> ab arch
           = (if version = [] then Inl NoContainerdVersion
              else Inl (UnknownUrlAndHash arch version))"
proof -
  have u: "findContainerdVersionUrl D arch version = Inl (UnparseableVersion version)"
    using assms by (simp add: findContainerdVersionUrl_def)
  have h: "findContainerdVersionHash D arch version = Inl (UnparseableVersion version)"
    using assms by (simp add: findContainerdVersionHash_def)
  have r: "findContainerdVersionUrlHash D arch version = Inl (UnknownUrlAndHash arch version)"
    using unparseable_not_in_tables [OF assms] by (rule resolve_unknown)
  have a: "findContainerdAsset F D
           \<lparr>Spec = \<lparr>Containerd = Some \<lparr>Packages = None, Version = Some version\<rparr>\<rparr>\<rparr> ab arch
           = (if version = [] then Inl NoContainerdVersion
              else Inl (UnknownUrlAndHash arch version))"
    using r
    by (subst asset_by_version [where cd = "\<lparr>Packages = None, Version = Some version\<rparr>"])
       (simp_all add: StringValue_def)
  from u h r a show ?thesis by simp
qed

theorem invalid_version_witness:
  "ParseTolerant ''latest'' = None \<and>
   findContainerdVersionUrl sampleDocker ArchitectureAmd64 ''latest'' =
     Inl (UnparseableVersion ''latest'') \<and>
   findContainerdVersionHash sampleDocker ArchitectureAmd64 ''latest'' =
     Inl (UnparseableVersion ''latest'') \<and>
   findContainerdVersionUrlHash sampleDocker ArchitectureAmd64 ''latest'' =
     Inl (UnknownUrlAndHash ArchitectureAmd64 ''latest'') \<and>
   findContainerdAsset verbatimDescriptor sampleDocker (sampleCluster None ''latest'') ()
     ArchitectureAmd64 = Inl (UnknownUrlAndHash ArchitectureAmd64 ''latest'')"
  using invalid_version [OF parse_latest,
      of sampleDocker ArchitectureAmd64 verbatimDescriptor "()"] parse_latest
  by (simp add: sampleCluster_def)

text \<open>
  The counterexample to C4 as stated: the version \<^verbatim>\<open>latest\<close> does not parse, there is no
  override, and the resolution fails with ``unknown url and hash'', not with the parse error.
\<close>

theorem invalid_version_counterexample:
  "ParseTolerant ''latest'' = None \<and>
   findContainerdAsset verbatimDescriptor sampleDocker (sampleCluster None ''latest'') ()
     ArchitectureAmd64 = Inl (UnknownUrlAndHash ArchitectureAmd64 ''latest'') \<and>
   findContainerdAsset verbatimDescriptor sampleDocker (sampleCluster None ''latest'') ()
     ArchitectureAmd64 \<noteq> Inl (UnparseableVersion ''latest'')"
proof -
  have r: "findContainerdVersionUrlHash sampleDocker ArchitectureAmd64 ''latest'' =
             Inl (UnknownUrlAndHash ArchitectureAmd64 ''latest'')"
    using unparseable_not_in_tables [OF parse_latest] by (rule resolve_unknown)
  have "findContainerdAsset verbatimDescriptor sampleDocker (sampleCluster None ''latest'') ()
     ArchitectureAmd64 = Inl (UnknownUrlAndHash ArchitectureAmd64 ''latest'')"
    by (subst asset_by_version [where cd = "\<lparr>Packages = None, Version = Some ''latest''\<rparr>"])
       (simp_all add: sampleCluster_def StringValue_def r)
  then show ?thesis
    using parse_latest by simp
qed

text \<open>
  Claim C5 (template switch). Every version string with an entry in the amd64 hash table
  parses, to a version that is not below 1.3.4, and its resolution on amd64 succeeds: the URL
  is the current template filled with the version string (twice) when the parsed version is
  at or above 1.3.8 and the legacy template filled with it otherwise; the hash is the table's
  entry for that exact string in both cases.
\<close>

theorem template_switch:
  assumes "index_map findAllContainerdHashesAmd64 version \<noteq> []"
  shows "\<exists>sv. ParseTolerant version = Some sv \<and> \<not> LT sv (MustParse ''1.3.4'') \<and>
           findContainerdVersionUrlHash D ArchitectureAmd64 version =
             Inr (if GTE sv (MustParse ''1.3.8'')
                  then Sprintf containerdVersionUrlAmd64 [version, version]
                  else Sprintf containerdLegacyUrlAmd64 [version],
                  index_map findAllContainerdHashesAmd64 version)"
proof -
  from amd64_key_parses [OF assms]
  obtain sv where sv: "ParseTolerant version = Some sv" "\<not> LT sv (MustParse ''1.3.4'')"
    by blast
  from resolve_amd64_native [OF assms sv(1), of D] sv show ?thesis
    by blast
qed

theorem template_switch_witness:
  "index_map findAllContainerdHashesAmd64 ''1.3.4'' \<noteq> [] \<and>
   findContainerdVersionUrlHash sampleDocker ArchitectureAmd64 ''1.3.4'' =
     Inr (''https://storage.googleapis.com/cri-containerd-release/cri-containerd-1.3.4.linux-amd64.tar.gz'',
          ''4616971c3ad21c24f2f2320fa1c085577a91032a068dd56a41c7c4b71a458087'') \<and>
   index_map findAllContainerdHashesAmd64 ''1.3.9'' \<noteq> [] \<and>
   findContainerdVersionUrlHash sampleDocker ArchitectureAmd64 ''1.3.9'' =
     Inr (''https://github.com/containerd/containerd/releases/download/v1.3.9/cri-containerd-cni-1.3.9-linux-amd64.tar.gz'',
          ''96663699e0f888fbf232ae6629a367aa7421f6b95044e7ee5d4d4e02841fac75'')"
proof -
  have a: "index_map findAllContainerdHashesAmd64 ''1.3.4'' =
             ''4616971c3ad21c24f2f2320fa1c085577a91032a068dd56a41c7c4b71a458087''"
    and b: "index_map findAllContainerdHashesAmd64 ''1.3.9'' =
             ''96663699e0f888fbf232ae6629a367aa7421f6b95044e7ee5d4d4e02841fac75''"
    by (simp_all add: index_map_def findAllContainerdHashesAmd64_def)
  have ga: "\<not> GTE \<lparr>Major = 1, Minor = 3, Patch = 4, Pre = [], Build = []\<rparr> (MustParse ''1.3.8'')"
    and gb: "GTE \<lparr>Major = 1, Minor = 3, Patch = 9, Pre = [], Build = []\<rparr> (MustParse ''1.3.8'')"
    by (simp_all add: GTE_def Compare_def MustParse_138)
  from template_switch [of "''1.3.4''" sampleDocker] ga
  have "findContainerdVersionUrlHash sampleDocker ArchitectureAmd64 ''1.3.4'' =
     Inr (''https://storage.googleapis.com/cri-containerd-release/cri-containerd-1.3.4.linux-amd64.tar.gz'',
          ''4616971c3ad21c24f2f2320fa1c085577a91032a068dd56a41c7c4b71a458087'')"
    by (simp add: a parse_keys(1) Sprintf_legacy)
  moreover from template_switch [of "''1.3.9''" sampleDocker] gb
  have "findContainerdVersionUrlHash sampleDocker ArchitectureAmd64 ''1.3.9'' =
     Inr (''https://github.com/containerd/containerd/releases/download/v1.3.9/cri-containerd-cni-1.3.9-linux-amd64.tar.gz'',
          ''96663699e0f888fbf232ae6629a367aa7421f6b95044e7ee5d4d4e02841fac75'')"
    by (simp add: b parse_keys(3) Sprintf_current)
  ultimately show ?thesis by (simp add: a b)
qed

text \<open>
  Claim C6 (concrete fallback). The docker mapping sends containerd 1.4.3 to docker 20.10.0,
  and the resolution of containerd 1.4.3 on arm64 returns the arm64 docker URL template
  filled with 20.10.0 together with the arm64 docker hash of 20.10.0. The docker template and
  table are not among the sources: the statement is for every docker side whose template is
  not empty and whose arm64 table has an entry for 20.10.0.
\<close>

theorem fallback_arm64_1_4_3:
  assumes "dockerVersionUrlArm64 D \<noteq> []"
    and "index_map (findAllDockerHashesArm64 D) ''20.10.0'' \<noteq> []"
  shows "index_map findAllContainerdDockerMappings ''1.4.3'' = ''20.10.0'' \<and>
         findContainerdVersionUrlHash D ArchitectureArm64 ''1.4.3'' =
           Inr (Sprintf (dockerVersionUrlArm64 D) [''20.10.0''],
                index_map (findAllDockerHashesArm64 D) ''20.10.0'')"
proof -
  have m: "index_map findAllContainerdDockerMappings ''1.4.3'' = ''20.10.0''"
    by (simp add: index_map_def findAllContainerdDockerMappings_def)
  have t: "index_map findAllContainerdHashesAmd64 ''1.4.3'' \<noteq> []"
    by (simp add: index_map_def findAllContainerdHashesAmd64_def)
  from resolve_arm64_dv [OF t assms(1), of "''20.10.0''"] assms(2) m show ?thesis
    by simp
qed

theorem fallback_arm64_1_4_3_witness:
  "findContainerdVersionUrlHash sampleDocker ArchitectureArm64 ''1.4.3'' =
     Inr (''https://download.docker.com/linux/static/stable/aarch64/docker-20.10.0.tgz'',
          index_map (findAllDockerHashesArm64 sampleDocker) ''20.10.0'')
   \<and> dockerVersionUrlArm64 sampleDocker \<noteq> []
   \<and> index_map (findAllDockerHashesArm64 sampleDocker) ''20.10.0'' \<noteq> []"
  using fallback_arm64_1_4_3 [of sampleDocker]
  by (simp add: sampleDocker_simps)

text \<open>
  Claim C7 (concrete native resolution). On amd64, version 1.4.9 resolves to the hash
  \<^verbatim>\<open>9911479f86012d6eab7e0f532da8f807a8b0f555ee09ef89367d8c31243073bb\<close> and to the current
  template filled with 1.4.9, whose text contains \<^verbatim>\<open>v1.4.9\<close>; \<^verbatim>\<open>findContainerdAsset\<close> hands
  exactly this URL and hash to \<^verbatim>\<open>findAssetsUrlHash\<close>. This is the amd64 containerd asset of the
  integration test data.
\<close>

theorem native_amd64_1_4_9:
  "Sprintf containerdVersionUrlAmd64 [''1.4.9'', ''1.4.9''] =
     ''https://github.com/containerd/containerd/releases/download/v1.4.9/cri-containerd-cni-1.4.9-linux-amd64.tar.gz''
   \<and> findContainerdVersionUrlHash D ArchitectureAmd64 ''1.4.9'' =
     Inr (''https://github.com/containerd/containerd/releases/download/v1.4.9/cri-containerd-cni-1.4.9-linux-amd64.tar.gz'',
          ''9911479f86012d6eab7e0f532da8f807a8b0f555ee09ef89367d8c31243073bb'')
   \<and> findContainerdAsset F D (sampleCluster None ''1.4.9'') ab ArchitectureAmd64 =
     F ab ''https://github.com/containerd/containerd/releases/download/v1.4.9/cri-containerd-cni-1.4.9-linux-amd64.tar.gz''
          ''9911479f86012d6eab7e0f532da8f807a8b0f555ee09ef89367d8c31243073bb''"
proof -
  have "findContainerdAsset F D (sampleCluster None ''1.4.9'') ab ArchitectureAmd64 =
     F ab ''https://github.com/containerd/containerd/releases/download/v1.4.9/cri-containerd-cni-1.4.9-linux-amd64.tar.gz''
          ''9911479f86012d6eab7e0f532da8f807a8b0f555ee09ef89367d8c31243073bb''"
    by (subst asset_by_version [where cd = "\<lparr>Packages = None, Version = Some ''1.4.9''\<rparr>"])
       (simp_all add: sampleCluster_def StringValue_def sample_native_1_4_9)
  then show ?thesis
    by (simp add: sample_native_1_4_9 Sprintf_current)
qed

text \<open>
  Claim C10 (a partial override falls through). When the override package is present but does
  not hold both the URL and the hash of the requested architecture (one of the two is
  \<^verbatim>\<open>nil\<close>, or only the other architecture's fields are set), \<^verbatim>\<open>findContainerdAsset\<close> returns
  what it returns for the same cluster without an override package: no error about the
  override, and the resolution by version.
\<close>

theorem partial_override_falls_through:
  assumes "\<not> (arch = ArchitectureAmd64 \<and> UrlAmd64 p \<noteq> None \<and> HashAmd64 p \<noteq> None)"
    and "\<not> (arch = ArchitectureArm64 \<and> UrlArm64 p \<noteq> None \<and> HashArm64 p \<noteq> None)"
  shows "findContainerdAsset F D
           \<lparr>Spec = \<lparr>Containerd = Some \<lparr>Packages = Some p, Version = v\<rparr>\<rparr>\<rparr> ab arch
         = findContainerdAsset F D
           \<lparr>Spec = \<lparr>Containerd = Some \<lparr>Packages = None, Version = v\<rparr>\<rparr>\<rparr> ab arch"
proof -
  have "findContainerdAsset F D
           \<lparr>Spec = \<lparr>Containerd = Some \<lparr>Packages = pk, Version = v\<rparr>\<rparr>\<rparr> ab arch
        = (if StringValue v = [] then Inl NoContainerdVersion
            else (case findContainerdVersionUrlHash D arch (StringValue v) of
                    Inl err \<Rightarrow> Inl err
                  | Inr (u, h) \<Rightarrow> F ab u h))"
    if "pk = None \<or> pk = Some p" for pk
    using that assms
    by (subst asset_by_version [where cd = "\<lparr>Packages = pk, Version = v\<rparr>"]) auto
  then show ?thesis by simp
qed

theorem partial_override_falls_through_witness:
  "findContainerdAsset verbatimDescriptor sampleDocker
     (sampleCluster
        (Some \<lparr>UrlAmd64 = Some ''https://mirror.example/containerd.tar.gz'',
               HashAmd64 = None, UrlArm64 = None, HashArm64 = None\<rparr>)
        ''1.4.9'') () ArchitectureAmd64
   = findContainerdAsset verbatimDescriptor sampleDocker
       (sampleCluster None ''1.4.9'') () ArchitectureAmd64
   \<and> findContainerdAsset verbatimDescriptor sampleDocker
       (sampleCluster None ''1.4.9'') () ArchitectureAmd64
     = Inr \<lparr>asset_sha256 = ''9911479f86012d6eab7e0f532da8f807a8b0f555ee09ef89367d8c31243073bb'',
            asset_urls = [''https://github.com/containerd/containerd/releases/download/v1.4.9/cri-containerd-cni-1.4.9-linux-amd64.tar.gz'']\<rparr>"
proof -
  have n: "findContainerdAsset verbatimDescriptor sampleDocker
       (sampleCluster None ''1.4.9'') () ArchitectureAmd64
     = Inr \<lparr>asset_sha256 = ''9911479f86012d6eab7e0f532da8f807a8b0f555ee09ef89367d8c31243073bb'',
            asset_urls = [''https://github.com/containerd/containerd/releases/download/v1.4.9/cri-containerd-cni-1.4.9-linux-amd64.tar.gz'']\<rparr>"
    by (subst asset_by_version [where cd = "\<lparr>Packages = None, Version = Some ''1.4.9''\<rparr>"])
       (simp_all add: sampleCluster_def StringValue_def sample_native_1_4_9 verbatimDescriptor_def)
  show ?thesis
    using partial_override_falls_through
      [of ArchitectureAmd64
          "\<lparr>UrlAmd64 = Some ''https://mirror.example/containerd.tar.gz'',
            HashAmd64 = None, UrlArm64 = None, HashArm64 = None\<rparr>"
          verbatimDescriptor sampleDocker "Some ''1.4.9''" "()"] n
    by (simp add: sampleCluster_def arch_distinct [symmetric])
qed

section \<open>The claims about the fetcher\<close>

text \<open>
  Claim C8 (the check of an existing file). What the script does, with the exit status:
  \<^item> if the target exists and its digest is the expected hash, \<^verbatim>\<open>download-or-bust\<close> returns at
    once with the machine unchanged (no download attempt is added, nothing is slept), and
    its exit status is 1, not 0: the bare \<^verbatim>\<open>return\<close> passes on the status of the condition
    \<^verbatim>\<open>! validate-hash\<close>;
  \<^item> if the target exists with another digest, the function is the download loop on the
    machine with the target removed, and a return has status 0;
  \<^item> whenever it returns, the target exists and its digest is the expected hash, and the
    status is 1 exactly when a valid target was there at the start.
  So the claim holds for the state of the machine, and fails for the success of the return:
  on an already valid target the function reports a failure to its caller, where the sibling
  return after a verified download reports success.
\<close>

theorem check_existing:
  "(target m = Some bytes \<and> sha256sum bytes = hash \<longrightarrow>
      download_or_bust sha256sum net fname hash us m = Some (1, m)) \<and>
   (target m = Some bytes \<and> sha256sum bytes \<noteq> hash \<longrightarrow>
      download_or_bust sha256sum net fname hash us m =
        map_option (\<lambda>m'. (0, m'))
          (download_loop sha256sum net fname hash us (m\<lparr>target := None\<rparr>))) \<and>
   (download_or_bust sha256sum net fname hash us m = Some (st, m') \<longrightarrow>
      (\<exists>b. target m' = Some b \<and> sha256sum b = hash) \<and>
      st = (if target m \<noteq> None \<and> validate_hash sha256sum (target m) hash then 1 else 0))"
proof (intro conjI impI)
  assume "target m = Some bytes \<and> sha256sum bytes = hash"
  then show "download_or_bust sha256sum net fname hash us m = Some (1, m)"
    by (simp add: download_or_bust_def validate_hash_Some)
next
  assume "target m = Some bytes \<and> sha256sum bytes \<noteq> hash"
  then show "download_or_bust sha256sum net fname hash us m =
        map_option (\<lambda>m'. (0, m'))
          (download_loop sha256sum net fname hash us (m\<lparr>target := None\<rparr>))"
    by (simp add: download_or_bust_def validate_hash_Some)
next
  assume r: "download_or_bust sha256sum net fname hash us m = Some (st, m')"
  then show "\<exists>b. target m' = Some b \<and> sha256sum b = hash"
    by (rule download_or_bust_verified(1))
  from r show "st = (if target m \<noteq> None \<and> validate_hash sha256sum (target m) hash then 1 else 0)"
    by (rule download_or_bust_verified(2))
qed

text \<open>
  The script on an already valid target, and on a stale one: status 1 with nothing done, and
  status 0 after the twelve attempts of the sample network.
\<close>

theorem check_existing_witness:
  "sampleDigest ''good'' = ''H'' \<and> sampleDigest ''stale'' \<noteq> ''H'' \<and>
   download_or_bust sampleDigest sampleNetwork ''nodeup'' ''H'' sampleUrls
     \<lparr>target = Some ''good'', attempts = [], slept = 0\<rparr>
     = Some (1, \<lparr>target = Some ''good'', attempts = [], slept = 0\<rparr>) \<and>
   download_or_bust sampleDigest sampleNetwork ''nodeup'' ''H'' sampleUrls
     \<lparr>target = Some ''stale'', attempts = [], slept = 0\<rparr>
     = map_option (\<lambda>m'. (0, m'))
         (download_loop sampleDigest sampleNetwork ''nodeup'' ''H'' sampleUrls
            \<lparr>target = None, attempts = [], slept = 0\<rparr>) \<and>
   download_or_bust sampleDigest sampleNetwork ''nodeup'' ''H'' sampleUrls
     \<lparr>target = Some ''stale'', attempts = [], slept = 0\<rparr>
     = Some (0, \<lparr>target = Some ''good'', attempts = pass_attempts ''nodeup'' sampleUrls,
                 slept = 0\<rparr>)"
proof -
  have d: "sampleDigest ''good'' = ''H''" "sampleDigest ''stale'' \<noteq> ''H''"
    by (simp_all add: sampleDigest_def)
  have loop: "download_loop sampleDigest sampleNetwork ''nodeup'' ''H'' sampleUrls
         \<lparr>target = None, attempts = [], slept = 0\<rparr>
       = Some \<lparr>target = Some ''good'', attempts = pass_attempts ''nodeup'' sampleUrls, slept = 0\<rparr>"
    using download_loop_returns [of sampleDigest sampleNetwork "''nodeup''" "''H''" sampleUrls
        "\<lparr>target = None, attempts = [], slept = 0\<rparr>"]
    by (simp add: sample_pass)
  from check_existing [where m = "\<lparr>target = Some ''good'', attempts = [], slept = 0\<rparr>"
      and bytes = "''good''" and sha256sum = sampleDigest and hash = "''H''"
      and net = sampleNetwork and fname = "''nodeup''" and us = sampleUrls]
  have one: "download_or_bust sampleDigest sampleNetwork ''nodeup'' ''H'' sampleUrls
     \<lparr>target = Some ''good'', attempts = [], slept = 0\<rparr>
     = Some (1, \<lparr>target = Some ''good'', attempts = [], slept = 0\<rparr>)"
    using d by simp
  from check_existing [where m = "\<lparr>target = Some ''stale'', attempts = [], slept = 0\<rparr>"
      and bytes = "''stale''" and sha256sum = sampleDigest and hash = "''H''"
      and net = sampleNetwork and fname = "''nodeup''" and us = sampleUrls]
  have two: "download_or_bust sampleDigest sampleNetwork ''nodeup'' ''H'' sampleUrls
     \<lparr>target = Some ''stale'', attempts = [], slept = 0\<rparr>
     = map_option (\<lambda>m'. (0, m'))
         (download_loop sampleDigest sampleNetwork ''nodeup'' ''H'' sampleUrls
            \<lparr>target = None, attempts = [], slept = 0\<rparr>)"
    using d by simp
  from one two loop d show ?thesis by simp
qed



end
